theory Spec2Isabelle
  imports Complex_Main
begin

section \<open>Python values and errors\<close>

text \<open>
  The exceptions the policy module raises itself (\<open>ValueError\<close>, \<open>TypeError\<close>,
  \<open>ImportError\<close>, the bare \<open>Exception\<close> of \<open>load\<close> for a missing path), Python's
  \<open>IndexError\<close>, \<open>AttributeError\<close> and \<open>IOError\<close>, and the numeric runtime's rejection
  of operands whose shapes do not fit (\<open>InvalidArgument\<close>).
\<close>

datatype error =
    ValueError
  | TypeError
  | ImportError
  | IndexError
  | AttributeError
  | IOError
  | PathDoesNotExist
  | InvalidArgument

text \<open>
  \<open>hidden_layer_size_a\<close> and \<open>hidden_layer_size_b\<close> are either a list of layer widths or a
  single width; \<open>isinstance(layer_size, list)\<close> tells them apart. Layer widths are integers
  (they are passed to \<open>tf.layers.dense\<close> as \<open>units\<close>).
\<close>

datatype 'a layer_size = NotList 'a | IsList "'a list"

section \<open>Configuration\<close>

subsection \<open>\<open>_check_hidden_layer_sizes\<close>\<close>

text \<open>
  The two \<open>if\<close> statements of the source in sequence. The first replaces a list of the
  wrong length by its first element (or raises on the empty list); the second broadcasts
  whatever is not a list. The calls to \<open>logger.error\<close> have no effect on the result and
  are left out.
\<close>

definition check_first ::
  "int \<Rightarrow> 'a layer_size \<Rightarrow> error + 'a layer_size" where
  "check_first num_layers layer_size =
     (case layer_size of
        IsList xs \<Rightarrow>
          if int (length xs) \<noteq> num_layers then
            (case xs of
               [] \<Rightarrow> Inl ValueError
             | x # _ \<Rightarrow> Inr (NotList x))
          else Inr layer_size
      | NotList _ \<Rightarrow> Inr layer_size)"

definition broadcast :: "int \<Rightarrow> 'a layer_size \<Rightarrow> 'a list" where
  "broadcast num_layers layer_size =
     (case layer_size of
        NotList v \<Rightarrow> replicate (nat num_layers) v
      | IsList xs \<Rightarrow> xs)"

definition check_hidden_layer_sizes ::
  "int \<Rightarrow> 'a layer_size \<Rightarrow> error + (int \<times> 'a list)" where
  "check_hidden_layer_sizes num_layers0 layer_size0 =
     (let num_layers = (if num_layers0 < 0 then 0 else num_layers0) in
      case check_first num_layers layer_size0 of
        Inl e \<Rightarrow> Inl e
      | Inr layer_size \<Rightarrow> Inr (num_layers, broadcast num_layers layer_size))"

subsection \<open>The \<open>defaults\<close> dictionary and keyword overrides\<close>

text \<open>
  The class attribute \<open>defaults\<close>, one field per key. \<open>attn_shift_range\<close> is \<open>None\<close> until
  training sets it.
\<close>

record config =
  cfg_num_hidden_layers_a :: int
  cfg_hidden_layer_size_a :: "int layer_size"
  cfg_num_hidden_layers_b :: int
  cfg_hidden_layer_size_b :: "int layer_size"
  cfg_rnn_size :: int
  cfg_batch_size :: int
  cfg_epochs :: int
  cfg_embed_dim :: int
  cfg_mu_pos :: real
  cfg_mu_neg :: real
  cfg_similarity_type :: string
  cfg_num_neg :: int
  cfg_use_max_sim_neg :: bool
  cfg_C2 :: real
  cfg_C_emb :: real
  cfg_droprate_a :: real
  cfg_droprate_b :: real
  cfg_droprate_slt :: real
  cfg_droprate_rnn :: real
  cfg_droprate_out :: real
  cfg_score_noise :: real
  cfg_use_attention :: bool
  cfg_attn_shift_range :: "int option"
  cfg_calc_acc_ones_in_epochs :: int
  cfg_calc_acc_on_num_examples :: int

definition defaults :: config where
  "defaults = \<lparr>
     cfg_num_hidden_layers_a = 0,
     cfg_hidden_layer_size_a = IsList [],
     cfg_num_hidden_layers_b = 0,
     cfg_hidden_layer_size_b = IsList [],
     cfg_rnn_size = 32,
     cfg_batch_size = 16,
     cfg_epochs = 1,
     cfg_embed_dim = 20,
     cfg_mu_pos = 0.8,
     cfg_mu_neg = - 0.2,
     cfg_similarity_type = ''cosine'',
     cfg_num_neg = 20,
     cfg_use_max_sim_neg = True,
     cfg_C2 = 0.001,
     cfg_C_emb = 0.8,
     cfg_droprate_a = 0.0,
     cfg_droprate_b = 0.0,
     cfg_droprate_slt = 0.0,
     cfg_droprate_rnn = 0.1,
     cfg_droprate_out = 0.1,
     cfg_score_noise = 0.0,
     cfg_use_attention = True,
     cfg_attn_shift_range = None,
     cfg_calc_acc_ones_in_epochs = 50,
     cfg_calc_acc_on_num_examples = 100 \<rparr>"

text \<open>
  A keyword argument of \<open>_load_params\<close> or \<open>train\<close>: one constructor per key of
  \<open>defaults\<close>. \<open>config.update(kwargs)\<close> stores each of them over the default.
\<close>

datatype kwarg =
    Num_hidden_layers_a int
  | Hidden_layer_size_a "int layer_size"
  | Num_hidden_layers_b int
  | Hidden_layer_size_b "int layer_size"
  | Rnn_size int
  | Batch_size int
  | Epochs int
  | Embed_dim int
  | Mu_pos real
  | Mu_neg real
  | Similarity_type string
  | Num_neg int
  | Use_max_sim_neg bool
  | C2_coef real
  | C_emb_coef real
  | Droprate_a real
  | Droprate_b real
  | Droprate_slt real
  | Droprate_rnn real
  | Droprate_out real
  | Score_noise real
  | Use_attention bool
  | Attn_shift_range "int option"
  | Calc_acc_ones_in_epochs int
  | Calc_acc_on_num_examples int

fun update_key :: "kwarg \<Rightarrow> config \<Rightarrow> config" where
  "update_key (Num_hidden_layers_a v) c = c\<lparr>cfg_num_hidden_layers_a := v\<rparr>"
| "update_key (Hidden_layer_size_a v) c = c\<lparr>cfg_hidden_layer_size_a := v\<rparr>"
| "update_key (Num_hidden_layers_b v) c = c\<lparr>cfg_num_hidden_layers_b := v\<rparr>"
| "update_key (Hidden_layer_size_b v) c = c\<lparr>cfg_hidden_layer_size_b := v\<rparr>"
| "update_key (Rnn_size v) c = c\<lparr>cfg_rnn_size := v\<rparr>"
| "update_key (Batch_size v) c = c\<lparr>cfg_batch_size := v\<rparr>"
| "update_key (Epochs v) c = c\<lparr>cfg_epochs := v\<rparr>"
| "update_key (Embed_dim v) c = c\<lparr>cfg_embed_dim := v\<rparr>"
| "update_key (Mu_pos v) c = c\<lparr>cfg_mu_pos := v\<rparr>"
| "update_key (Mu_neg v) c = c\<lparr>cfg_mu_neg := v\<rparr>"
| "update_key (Similarity_type v) c = c\<lparr>cfg_similarity_type := v\<rparr>"
| "update_key (Num_neg v) c = c\<lparr>cfg_num_neg := v\<rparr>"
| "update_key (Use_max_sim_neg v) c = c\<lparr>cfg_use_max_sim_neg := v\<rparr>"
| "update_key (C2_coef v) c = c\<lparr>cfg_C2 := v\<rparr>"
| "update_key (C_emb_coef v) c = c\<lparr>cfg_C_emb := v\<rparr>"
| "update_key (Droprate_a v) c = c\<lparr>cfg_droprate_a := v\<rparr>"
| "update_key (Droprate_b v) c = c\<lparr>cfg_droprate_b := v\<rparr>"
| "update_key (Droprate_slt v) c = c\<lparr>cfg_droprate_slt := v\<rparr>"
| "update_key (Droprate_rnn v) c = c\<lparr>cfg_droprate_rnn := v\<rparr>"
| "update_key (Droprate_out v) c = c\<lparr>cfg_droprate_out := v\<rparr>"
| "update_key (Score_noise v) c = c\<lparr>cfg_score_noise := v\<rparr>"
| "update_key (Use_attention v) c = c\<lparr>cfg_use_attention := v\<rparr>"
| "update_key (Attn_shift_range v) c = c\<lparr>cfg_attn_shift_range := v\<rparr>"
| "update_key (Calc_acc_ones_in_epochs v) c = c\<lparr>cfg_calc_acc_ones_in_epochs := v\<rparr>"
| "update_key (Calc_acc_on_num_examples v) c = c\<lparr>cfg_calc_acc_on_num_examples := v\<rparr>"

definition update :: "config \<Rightarrow> kwarg list \<Rightarrow> config" where
  "update c kwargs = fold update_key kwargs c"

subsection \<open>Tensors, the featurizer and the compute session\<close>

type_synonym tensor1 = "real list"
type_synonym tensor2 = "real list list"
type_synonym tensor3 = "real list list list"
type_synonym tensor4 = "real list list list list"

record domain =
  num_actions :: nat

text \<open>
  The featurizer is an external collaborator; the policy uses the members below.
  \<open>share_vocab\<close> is \<open>None\<close> where reading the attribute raises \<open>AttributeError\<close>.
\<close>

record 'tr featurizer =
  is_full_dialogue :: bool
  share_vocab :: "bool option"
  user_feature_len :: nat
  slot_feature_len :: nat
  create_X :: "'tr list \<Rightarrow> domain \<Rightarrow> tensor3"
  create_encoded_all_actions :: "domain \<Rightarrow> tensor2"

text \<open>
  A handle on a node of the graph, or Python's \<open>None\<close>.
\<close>

datatype handle = PyNone | Tensor string

datatype fed = Rank3 tensor3 | Rank4 tensor4 | Flag bool

type_synonym feed_dict = "(handle \<times> fed) list"

text \<open>
  An open session with its parameter values: what \<open>session.run\<close> yields for a fetched
  similarity node under a feed dictionary. The numeric runtime rejects a fetch or a feed
  key that is no node of its graph.
\<close>

type_synonym session = "handle \<Rightarrow> feed_dict \<Rightarrow> error + tensor3"

datatype collection_key =
    Intent_placeholder
  | Action_placeholder
  | Slots_placeholder
  | Prev_act_placeholder
  | Similarity_op
  | Alignment_history nat

text \<open>
  The graph's named collections (\<open>clear_collection\<close>, \<open>add_to_collection\<close>,
  \<open>get_collection\<close>); \<open>Alignment_history i\<close> is the name \<open>'alignment_history_i'\<close>.
\<close>

type_synonym graph = "collection_key \<Rightarrow> handle list"

subsection \<open>The policy object\<close>

record droprate =
  dr_a :: real
  dr_b :: real
  dr_slt :: real
  dr_rnn :: real
  dr_out :: real

record 'tr policy =
  featurizer :: "'tr featurizer"
  share_embedding :: bool
  num_hidden_layers_a :: int
  hidden_layer_size_a :: "int list"
  num_hidden_layers_b :: int
  hidden_layer_size_b :: "int list"
  rnn_size :: int
  batch_size :: int
  epochs :: int
  embed_dim :: int
  mu_pos :: real
  mu_neg :: real
  similarity_type :: string
  num_neg :: int
  use_max_sim_neg :: bool
  C2 :: real
  C_emb :: real
  droprate :: droprate
  score_noise :: real
  use_attention :: bool
  attn_shift_range :: "int option"
  calc_acc_ones_in_epochs :: int
  calc_acc_on_num_examples :: int
  characteristic_time :: "real option"
  encoded_all_actions :: "tensor2 option"
  session :: "session option"
  graph :: "graph option"
  a_in :: handle
  b_in :: handle
  c_in :: handle
  b_prev_in :: handle
  sim_op :: handle
  alignment_history :: "handle list option"
  train_op :: handle
  is_training :: handle

subsection \<open>\<open>_load_params\<close> and its parts\<close>

definition load_nn_architecture_params ::
  "config \<Rightarrow> 'tr policy \<Rightarrow> error + 'tr policy" where
  "load_nn_architecture_params config self =
     (case check_hidden_layer_sizes (cfg_num_hidden_layers_a config)
             (cfg_hidden_layer_size_a config) of
        Inl e \<Rightarrow> Inl e
      | Inr (na, sa) \<Rightarrow>
     (case check_hidden_layer_sizes (cfg_num_hidden_layers_b config)
             (cfg_hidden_layer_size_b config) of
        Inl e \<Rightarrow> Inl e
      | Inr (nb, sb) \<Rightarrow>
          let (nb', sb') =
                (if share_embedding self \<and> (na \<noteq> nb \<or> sa \<noteq> sb)
                 then (na, sa) else (nb, sb))
          in Inr (self\<lparr>
               num_hidden_layers_a := na,
               hidden_layer_size_a := sa,
               num_hidden_layers_b := nb',
               hidden_layer_size_b := sb',
               rnn_size := cfg_rnn_size config,
               batch_size := cfg_batch_size config,
               epochs := cfg_epochs config\<rparr>)))"

definition load_embedding_params :: "config \<Rightarrow> 'tr policy \<Rightarrow> 'tr policy" where
  "load_embedding_params config self = self\<lparr>
     embed_dim := cfg_embed_dim config,
     mu_pos := cfg_mu_pos config,
     mu_neg := cfg_mu_neg config,
     similarity_type := cfg_similarity_type config,
     num_neg := cfg_num_neg config,
     use_max_sim_neg := cfg_use_max_sim_neg config\<rparr>"

definition load_regularization_params :: "config \<Rightarrow> 'tr policy \<Rightarrow> 'tr policy" where
  "load_regularization_params config self = self\<lparr>
     C2 := cfg_C2 config,
     C_emb := cfg_C_emb config,
     droprate := \<lparr>
       dr_a = cfg_droprate_a config,
       dr_b = cfg_droprate_b config,
       dr_slt = cfg_droprate_slt config,
       dr_rnn = cfg_droprate_rnn config,
       dr_out = cfg_droprate_out config\<rparr>\<rparr>"

definition load_attn_params :: "config \<Rightarrow> 'tr policy \<Rightarrow> 'tr policy" where
  "load_attn_params config self = self\<lparr>
     score_noise := cfg_score_noise config,
     use_attention := cfg_use_attention config,
     attn_shift_range := cfg_attn_shift_range config\<rparr>"

definition load_visual_params :: "config \<Rightarrow> 'tr policy \<Rightarrow> 'tr policy" where
  "load_visual_params config self = self\<lparr>
     calc_acc_ones_in_epochs :=
       (if cfg_calc_acc_ones_in_epochs config < 1 then epochs self
        else cfg_calc_acc_ones_in_epochs config),
     calc_acc_on_num_examples := cfg_calc_acc_on_num_examples config\<rparr>"

definition load_params :: "kwarg list \<Rightarrow> 'tr policy \<Rightarrow> error + 'tr policy" where
  "load_params kwargs self =
     (let config = update defaults kwargs in
      case load_nn_architecture_params config self of
        Inl e \<Rightarrow> Inl e
      | Inr self1 \<Rightarrow>
          Inr (load_visual_params config
                (load_attn_params config
                  (load_regularization_params config
                    (load_embedding_params config self1)))))"

subsection \<open>The constructor\<close>

text \<open>
  \<open>tf_imported\<close> says whether \<open>import tensorflow\<close> succeeded; \<open>standard_featurizer\<close> is
  what the base class \<open>Policy\<close> installs when no featurizer is passed. The attributes that
  \<open>_load_params\<close> assigns do not exist before it runs; \<open>blank\<close> holds arbitrary values
  for them, and \<open>load_params_blank\<close> below shows that none survives.
\<close>

definition blank :: "'tr featurizer \<Rightarrow> bool \<Rightarrow> 'tr policy" where
  "blank fz share = \<lparr>
     featurizer = fz,
     share_embedding = share,
     num_hidden_layers_a = 0,
     hidden_layer_size_a = [],
     num_hidden_layers_b = 0,
     hidden_layer_size_b = [],
     rnn_size = 0,
     batch_size = 0,
     epochs = 0,
     embed_dim = 0,
     mu_pos = 0,
     mu_neg = 0,
     similarity_type = [],
     num_neg = 0,
     use_max_sim_neg = False,
     C2 = 0,
     C_emb = 0,
     droprate = \<lparr>dr_a = 0, dr_b = 0, dr_slt = 0, dr_rnn = 0, dr_out = 0\<rparr>,
     score_noise = 0,
     use_attention = False,
     attn_shift_range = None,
     calc_acc_ones_in_epochs = 0,
     calc_acc_on_num_examples = 0,
     characteristic_time = None,
     encoded_all_actions = None,
     session = None,
     graph = None,
     a_in = PyNone,
     b_in = PyNone,
     c_in = PyNone,
     b_prev_in = PyNone,
     sim_op = PyNone,
     alignment_history = None,
     train_op = PyNone,
     is_training = PyNone \<rparr>"

definition init ::
  "bool \<Rightarrow> 'tr featurizer \<Rightarrow> 'tr featurizer option \<Rightarrow> tensor2 option \<Rightarrow>
   session option \<Rightarrow> graph option \<Rightarrow> handle \<Rightarrow> handle \<Rightarrow> handle \<Rightarrow> handle \<Rightarrow> handle \<Rightarrow>
   handle list option \<Rightarrow> error + 'tr policy" where
  "init tf_imported standard_featurizer featurizer0 encoded_all_actions0 session0 graph0
        intent_placeholder action_placeholder slots_placeholder prev_act_placeholder
        similarity_op alignment_history0 =
     (if \<not> tf_imported then Inl ImportError
      else if (case featurizer0 of Some f \<Rightarrow> \<not> is_full_dialogue f | None \<Rightarrow> False)
      then Inl TypeError
      else
        let fz = (case featurizer0 of Some f \<Rightarrow> f | None \<Rightarrow> standard_featurizer);
            share = (case share_vocab fz of Some b \<Rightarrow> b | None \<Rightarrow> False)
        in case load_params [] (blank fz share) of
             Inl e \<Rightarrow> Inl e
           | Inr self \<Rightarrow> Inr (self\<lparr>
               characteristic_time := None,
               encoded_all_actions := encoded_all_actions0,
               session := session0,
               graph := graph0,
               a_in := intent_placeholder,
               b_in := action_placeholder,
               c_in := slots_placeholder,
               b_prev_in := prev_act_placeholder,
               sim_op := similarity_op,
               alignment_history := alignment_history0,
               train_op := PyNone,
               is_training := PyNone\<rparr>))"

section \<open>Inference\<close>

subsection \<open>Data helpers\<close>

text \<open>
  \<open>X.shape[1]\<close> of a three-dimensional array: the number of steps of its dialogues.
\<close>

definition shape1 :: "'a list list \<Rightarrow> nat" where
  "shape1 X = (case X of [] \<Rightarrow> 0 | d # _ \<Rightarrow> length d)"

text \<open>\<open>np.stack\<close> of a Python list of arrays; it raises on the empty list.\<close>

definition np_stack :: "'a list \<Rightarrow> error + 'a list" where
  "np_stack xs = (if xs = [] then Inl ValueError else Inr xs)"

definition create_all_Y_d :: "'tr policy \<Rightarrow> nat \<Rightarrow> error + tensor3" where
  "create_all_Y_d self dialogue_len =
     (case encoded_all_actions self of
        None \<Rightarrow> Inl TypeError
      | Some acts \<Rightarrow> np_stack (replicate dialogue_len acts))"

definition create_X_slots :: "'tr policy \<Rightarrow> tensor3 \<Rightarrow> tensor3 \<times> tensor3 \<times> tensor3" where
  "create_X_slots self data_X =
     (let slot_start = user_feature_len (featurizer self);
          prev_start = slot_start + slot_feature_len (featurizer self);
          X = map (map (take slot_start)) data_X;
          slots = map (map (\<lambda>v. drop slot_start (take prev_start v))) data_X;
          prev_act = map (map (drop prev_start)) data_X
      in (X, slots, prev_act))"

subsection \<open>\<open>predict_action_probabilities\<close>\<close>

datatype log_record = Error_no_trained_session | Warning_nothing_to_persist

text \<open>\<open>_sim[0, -1, :]\<close>: the last step of the first dialogue.\<close>

definition last_step_row :: "tensor3 \<Rightarrow> error + tensor1" where
  "last_step_row sim =
     (case sim of
        [] \<Rightarrow> Inl IndexError
      | d # _ \<Rightarrow> if d = [] then Inl IndexError else Inr (last d))"

subsection \<open>Single-precision scores\<close>

text \<open>
  An entry of a single-precision array: a finite number, infinity or NaN. The session
  yields finite similarities; the scores that \<open>predict_action_probabilities\<close> returns
  are such entries.
\<close>

datatype float32 = Finite real | PosInf | NaN

text \<open>
  The single-precision result of an operation whose exact result \<open>v\<close> is not negative.
  From \<open>(2^25 - 1) * 2^103\<close> on, halfway between the largest finite number
  \<open>(2^24 - 1) * 2^104\<close> and \<open>2^128\<close>, the result is infinity; up to \<open>2^-150\<close>, half the
  smallest positive number, it is zero. The rounding of a result in between is left
  out.
\<close>

definition overflow_from :: real where
  "overflow_from = (2 ^ 25 - 1) * 2 ^ 103"

definition underflow_to :: real where
  "underflow_to = 1 / 2 ^ 150"

definition to_float32 :: "real \<Rightarrow> float32" where
  "to_float32 v =
     (if overflow_from \<le> v then PosInf
      else if v \<le> underflow_to then Finite 0
      else Finite v)"

text \<open>
  \<open>np.exp\<close> of an entry, the sum of two entries, \<open>np.sum\<close> of an array and the quotient
  of two entries. Where the policy uses them no operand is negative: they are
  exponentials and sums of exponentials.
\<close>

definition np_exp :: "real \<Rightarrow> float32" where
  "np_exp x = to_float32 (exp x)"

fun float_add :: "float32 \<Rightarrow> float32 \<Rightarrow> float32" where
  "float_add (Finite a) (Finite b) = to_float32 (a + b)"
| "float_add NaN y = NaN"
| "float_add x NaN = NaN"
| "float_add PosInf y = PosInf"
| "float_add x PosInf = PosInf"

definition np_sum :: "float32 list \<Rightarrow> float32" where
  "np_sum xs = foldl float_add (Finite 0) xs"

fun float_div :: "float32 \<Rightarrow> float32 \<Rightarrow> float32" where
  "float_div (Finite a) (Finite b) =
     (if b = 0 then (if a = 0 then NaN else PosInf) else to_float32 (a / b))"
| "float_div (Finite a) PosInf = Finite 0"
| "float_div PosInf (Finite b) = PosInf"
| "float_div PosInf PosInf = NaN"
| "float_div NaN y = NaN"
| "float_div x NaN = NaN"

text \<open>
  The branch on \<open>similarity_type\<close> after the row is taken: negative entries set to zero
  for \<open>'cosine'\<close>; for \<open>'inner'\<close> the exponentials of the entries, each divided by their
  sum; the row as it is for anything else.
\<close>

definition clip_or_normalize :: "string \<Rightarrow> tensor1 \<Rightarrow> float32 list" where
  "clip_or_normalize sim_type result =
     (if sim_type = ''cosine'' then map (\<lambda>x. Finite (if x < 0 then 0 else x)) result
      else if sim_type = ''inner'' then
        (let e = map np_exp result;
             s = np_sum e
         in map (\<lambda>x. float_div x s) e)
      else map Finite result)"

definition predict_action_probabilities ::
  "'tr policy \<Rightarrow> 'tr \<Rightarrow> domain \<Rightarrow> log_record list \<times> (error + float32 list)" where
  "predict_action_probabilities self tracker domain0 =
     (case session self of
        None \<Rightarrow>
          ([Error_no_trained_session], Inr (replicate (num_actions domain0) (Finite 0)))
      | Some sess \<Rightarrow>
          ([],
           let data_X = create_X (featurizer self) [tracker] domain0;
               (X, slots, prev_act) = create_X_slots self data_X
           in case create_all_Y_d self (shape1 X) of
                Inl e \<Rightarrow> Inl e
              | Inr all_Y_d \<Rightarrow>
            (case np_stack (replicate (length X) all_Y_d) of
                Inl e \<Rightarrow> Inl e
              | Inr all_Y_d_x \<Rightarrow>
            (case sess (sim_op self)
                    [(a_in self, Rank3 X), (b_in self, Rank4 all_Y_d_x),
                     (c_in self, Rank3 slots), (b_prev_in self, Rank3 prev_act)] of
                Inl e \<Rightarrow> Inl e
              | Inr sim \<Rightarrow>
            (case last_step_row sim of
                Inl e \<Rightarrow> Inl e
              | Inr result \<Rightarrow> Inr (clip_or_normalize (similarity_type self) result))))))"

section \<open>Training entry point\<close>

text \<open>
  What the featurizer makes of the training trackers (\<open>featurize_for_training\<close>).
\<close>

record training_data =
  td_X :: tensor3
  td_y :: tensor3
  true_length :: "int list"

text \<open>\<open>np.mean\<close>; \<open>None\<close> stands for the NaN it gives on no values.\<close>

definition np_mean :: "int list \<Rightarrow> real option" where
  "np_mean xs = (if xs = [] then None else Some (real_of_int (sum_list xs) / real (length xs)))"

text \<open>Python's \<open>int\<close> of a float truncates towards zero.\<close>

definition python_int :: "real \<Rightarrow> int" where
  "python_int x = (if x < 0 then \<lceil>x\<rceil> else \<lfloor>x\<rfloor>)"

text \<open>
  \<open>train\<close> up to the point where the session exists. Building the graph and running the
  optimizer belong to the numeric runtime: \<open>fitted\<close> stands for the session that
  \<open>_train_tf\<close> leaves behind, whatever its parameter values are. Of the graph construction
  the model keeps the one error the policy raises itself, the \<open>ValueError\<close> of \<open>_tf_sim\<close>
  for a similarity type other than \<open>'cosine'\<close> and \<open>'inner'\<close>, and the names of the
  placeholders. \<open>int\<close> of a NaN characteristic time raises \<open>ValueError\<close>.
\<close>

definition train ::
  "'tr policy \<Rightarrow> training_data \<Rightarrow> domain \<Rightarrow> kwarg list \<Rightarrow> session \<Rightarrow> error + 'tr policy" where
  "train self data domain0 kwargs fitted =
     (case (if kwargs \<noteq> [] then load_params kwargs self else Inr self) of
        Inl e \<Rightarrow> Inl e
      | Inr self1 \<Rightarrow>
          let ct = np_mean (true_length data) in
          case (case attn_shift_range self1 of
                  Some r \<Rightarrow> Inr (Some r)
                | None \<Rightarrow>
                    (case ct of
                       None \<Rightarrow> Inl ValueError
                     | Some c \<Rightarrow> Inr (Some (python_int (c / 2))))) of
            Inl e \<Rightarrow> Inl e
          | Inr shift \<Rightarrow>
              if similarity_type self1 \<noteq> ''cosine'' \<and> similarity_type self1 \<noteq> ''inner''
              then Inl ValueError
              else Inr (self1\<lparr>
                characteristic_time := ct,
                attn_shift_range := shift,
                encoded_all_actions :=
                  Some (create_encoded_all_actions (featurizer self1) domain0),
                num_neg := min (num_neg self1) (int (num_actions domain0) - 1),
                graph := Some (\<lambda>_. []),
                a_in := Tensor ''a'',
                b_in := Tensor ''b'',
                c_in := Tensor ''slt'',
                b_prev_in := Tensor ''b_prev'',
                is_training := Tensor ''is_training'',
                sim_op := Tensor ''sim'',
                alignment_history :=
                  Some (if use_attention self1 then [Tensor ''alignments''] else []),
                train_op := Tensor ''train_op'',
                session := Some fitted\<rparr>))"

section \<open>Persistence\<close>

text \<open>
  A directory of the file system, as far as \<open>persist\<close> and \<open>load\<close> touch it: the
  checkpoint's \<open>.meta\<close> file (the graph with its collections), the checkpoint's parameter
  values (with which a restored session computes what the saved one did), the pickled
  table of encoded actions, and the featurizer's files.
\<close>

text \<open>
  Modelled from the spec: the featurizer's own \<open>persist\<close> and \<open>TrackerFeaturizer.load\<close>,
  which are not part of the policy module (field \<open>featurizer_file\<close>). The first stores
  the featurizer under the path, the second gives it back, or \<open>None\<close> where nothing was
  stored.
\<close>

record 'tr directory =
  featurizer_file :: "'tr featurizer option"
  ckpt_meta :: "graph option"
  ckpt_data :: "session option"
  encoded_all_actions_pkl :: "tensor2 option option"

type_synonym path = string
type_synonym 'tr filesystem = "path \<Rightarrow> 'tr directory option"

definition empty_dir :: "'tr directory" where
  "empty_dir = \<lparr>featurizer_file = None, ckpt_meta = None, ckpt_data = None,
                 encoded_all_actions_pkl = None\<rparr>"

text \<open>One round of the loop over \<open>enumerate(self.alignment_history)\<close>.\<close>

definition add_alignments :: "nat \<times> handle \<Rightarrow> graph \<Rightarrow> graph" where
  "add_alignments ia g = (case ia of (i, alignments) \<Rightarrow> g(Alignment_history i := [alignments]))"

definition persist ::
  "'tr policy \<Rightarrow> path \<Rightarrow> 'tr filesystem \<Rightarrow>
   log_record list \<times> (error + ('tr policy \<times> 'tr filesystem))" where
  "persist self path fs =
     (case session self of
        None \<Rightarrow> ([Warning_nothing_to_persist], Inr (self, fs))
      | Some sess \<Rightarrow>
          ([],
           let dir0 = (case fs path of None \<Rightarrow> empty_dir | Some d \<Rightarrow> d);
               dir1 = dir0\<lparr>featurizer_file := Some (featurizer self)\<rparr>
           in case graph self of
                None \<Rightarrow> Inl AttributeError
              | Some g \<Rightarrow>
                  let g1 = g(Intent_placeholder := [a_in self],
                             Action_placeholder := [b_in self],
                             Slots_placeholder := [c_in self],
                             Prev_act_placeholder := [b_prev_in self],
                             Similarity_op := [sim_op self])
                  in case alignment_history self of
                       None \<Rightarrow> Inl TypeError
                     | Some hs \<Rightarrow>
                         let g2 = fold add_alignments (enumerate 0 hs) g1;
                             dir2 = dir1\<lparr>
                               ckpt_meta := Some g2,
                               ckpt_data := Some sess,
                               encoded_all_actions_pkl := Some (encoded_all_actions self)\<rparr>
                         in Inr (self\<lparr>graph := Some g2\<rparr>, fs(path \<mapsto> dir2))))"

definition NUM_ATTENTION_TYPES :: nat where
  "NUM_ATTENTION_TYPES = 1"

text \<open>\<open>tf.get_collection(name)[0]\<close>.\<close>

definition first_of :: "graph \<Rightarrow> collection_key \<Rightarrow> error + handle" where
  "first_of g name = (case g name of [] \<Rightarrow> Inl IndexError | h # _ \<Rightarrow> Inr h)"

definition load ::
  "bool \<Rightarrow> 'tr featurizer \<Rightarrow> path \<Rightarrow> 'tr filesystem \<Rightarrow> error + 'tr policy" where
  "load tf_imported standard_featurizer path fs =
     (case fs path of
        None \<Rightarrow> Inl PathDoesNotExist
      | Some dir \<Rightarrow>
          let featurizer0 = featurizer_file dir in
          case ckpt_meta dir of
            None \<Rightarrow>
              init tf_imported standard_featurizer featurizer0 None None None
                   PyNone PyNone PyNone PyNone PyNone None
          | Some g \<Rightarrow>
              if \<not> tf_imported then Inl AttributeError
              else
             (case ckpt_data dir of
                None \<Rightarrow> Inl IOError
              | Some sess \<Rightarrow>
             (case first_of g Intent_placeholder of
                Inl e \<Rightarrow> Inl e
              | Inr a_in0 \<Rightarrow>
             (case first_of g Action_placeholder of
                Inl e \<Rightarrow> Inl e
              | Inr b_in0 \<Rightarrow>
             (case first_of g Slots_placeholder of
                Inl e \<Rightarrow> Inl e
              | Inr c_in0 \<Rightarrow>
             (case first_of g Prev_act_placeholder of
                Inl e \<Rightarrow> Inl e
              | Inr b_prev_in0 \<Rightarrow>
             (case first_of g Similarity_op of
                Inl e \<Rightarrow> Inl e
              | Inr sim_op0 \<Rightarrow>
                  let alignment_history0 =
                        concat (map (\<lambda>i. g (Alignment_history i)) [0..<NUM_ATTENTION_TYPES])
                  in case encoded_all_actions_pkl dir of
                       None \<Rightarrow> Inl IOError
                     | Some encoded_all_actions0 \<Rightarrow>
                         init tf_imported standard_featurizer featurizer0
                              encoded_all_actions0 (Some sess) (Some g)
                              a_in0 b_in0 c_in0 b_prev_in0 sim_op0
                              (Some alignment_history0))))))))"

section \<open>Dropout without rescaling\<close>

text \<open>
  \<open>tf.nn.dropout(x, keep_prob)\<close> of the numeric runtime, for one row of values: with
  \<open>u\<close> drawn uniformly from \<open>[0, 1)\<close> for each element, the element is divided by
  \<open>keep_prob\<close> and multiplied by \<open>floor(keep_prob + u)\<close>. The draws are an argument.
\<close>

definition tf_nn_dropout :: "tensor1 \<Rightarrow> real \<Rightarrow> real list \<Rightarrow> tensor1" where
  "tf_nn_dropout x keep_prob us =
     map2 (\<lambda>v u. v / keep_prob * of_int \<lfloor>keep_prob + u\<rfloor>) x us"



section \<open>The chrono recurrent cell\<close>

definition sigmoid :: "real \<Rightarrow> real" where
  "sigmoid x = 1 / (1 + exp (- x))"

text \<open>
  The keep probability of the recurrent dropout is a Python float or a tensor; the
  policy passes a tensor whose value depends on the training flag fed to the run.
\<close>

datatype keep_prob = PyFloat real | TensorOf "bool \<Rightarrow> real"

text \<open>
  \<open>ChronoLayerNormBasicLSTMCell\<close>, one batch row at a time. \<open>cell_linear\<close> is the
  learned affine map \<open>_linear\<close> of the base class and \<open>cell_norm\<close> its layer
  normalization \<open>_norm\<close>, by scope name; both are arguments of the model.
\<close>

record cell =
  cell_num_units :: int
  cell_forget_bias :: "real list"
  cell_input_bias :: "real list"
  cell_layer_norm :: bool
  cell_keep_prob :: keep_prob
  cell_linear :: "real list \<Rightarrow> real list"
  cell_norm :: "string \<Rightarrow> real list \<Rightarrow> real list"

text \<open>
  \<open>_create_rnn_cell\<close>. \<open>draws\<close> is the vector \<open>np.random.random(self.rnn_size)\<close>, drawn
  when the graph is built. A characteristic time of \<open>None\<close> cannot be subtracted from.
\<close>

definition create_rnn_cell ::
  "'tr policy \<Rightarrow> real list \<Rightarrow> (real list \<Rightarrow> real list) \<Rightarrow> (string \<Rightarrow> real list \<Rightarrow> real list) \<Rightarrow>
   error + cell" where
  "create_rnn_cell self draws lin nrm =
     (case characteristic_time self of
        None \<Rightarrow> Inl TypeError
      | Some ct \<Rightarrow>
          let fbias = map (\<lambda>u. ln ((ct - 2) * u + 1)) draws;
              keep_prob = TensorOf (\<lambda>training.
                 1.0 - dr_rnn (droprate self) * (if training then 1 else 0))
          in Inr \<lparr>cell_num_units = rnn_size self,
                  cell_forget_bias = fbias,
                  cell_input_bias = map uminus fbias,
                  cell_layer_norm = False,
                  cell_keep_prob = keep_prob,
                  cell_linear = lin,
                  cell_norm = nrm\<rparr>)"

text \<open>
  \<open>call\<close>. \<open>tf.split\<close> into four rejects a length that four does not divide; the
  element-wise operations act on rows of equal length. \<open>us\<close> are the draws of the
  recurrent dropout.
\<close>

definition call ::
  "cell \<Rightarrow> bool \<Rightarrow> real list \<Rightarrow> real list \<Rightarrow> real list \<times> real list \<Rightarrow>
   error + (real list \<times> (real list \<times> real list))" where
  "call self training us inputs state =
     (case state of (c, h) \<Rightarrow>
        let args = inputs @ h;
            concat = cell_linear self args
        in if length concat mod 4 \<noteq> 0 then Inl InvalidArgument
           else
             let n = length concat div 4;
                 i0 = take n concat;
                 j0 = take n (drop n concat);
                 f0 = take n (drop (2 * n) concat);
                 o0 = take n (drop (3 * n) concat);
                 i = (if cell_layer_norm self then cell_norm self ''input'' i0 else i0);
                 j = (if cell_layer_norm self then cell_norm self ''transform'' j0 else j0);
                 f = (if cell_layer_norm self then cell_norm self ''forget'' f0 else f0);
                 o1 = (if cell_layer_norm self then cell_norm self ''output'' o0 else o0);
                 g0 = map tanh j;
                 g = (case cell_keep_prob self of
                        PyFloat k \<Rightarrow> if k < 1 then tf_nn_dropout g0 k us else g0
                      | TensorOf k \<Rightarrow> tf_nn_dropout g0 (k training) us);
                 new_c0 = map2 (+)
                            (map2 (*) c (map sigmoid (map2 (+) f (cell_forget_bias self))))
                            (map2 (*) g (map sigmoid (map2 (+) i (cell_input_bias self))));
                 new_c = (if cell_layer_norm self then cell_norm self ''state'' new_c0
                          else new_c0);
                 new_h = map2 (*) (map tanh new_c) (map sigmoid o1)
             in Inr (new_h, (new_c, new_h)))"

section \<open>Negative sampling\<close>

text \<open>
  The state of NumPy's global random generator: an endless stream of draws and the
  position of the next one.
\<close>

type_synonym random_stream = "nat \<Rightarrow> nat"

text \<open>
  \<open>np.random.choice(a, size=size)\<close>: \<open>replace\<close> keeps its default \<open>True\<close>, so every one
  of the \<open>size\<close> entries is an independent draw of a position of \<open>a\<close>. A draw \<open>r\<close> of the
  stream selects position \<open>r mod len(a)\<close>. Drawing from an empty \<open>a\<close> raises.
\<close>

definition choice ::
  "nat list \<Rightarrow> int \<Rightarrow> random_stream \<Rightarrow> nat \<Rightarrow> error + (nat list \<times> nat)" where
  "choice a size0 stream pos =
     (if size0 < 0 then Inl ValueError
      else if a = [] \<and> 0 < size0 then Inl ValueError
      else Inr (map (\<lambda>k. a ! (stream (pos + k) mod length a)) [0..<nat size0],
                pos + nat size0))"

text \<open>
  The body of the two loops of \<open>_create_batch_b\<close> for one step: the indices of all
  actions but the correct one, and \<open>num_neg\<close> draws among them.
\<close>

definition sample_step ::
  "nat \<Rightarrow> int \<Rightarrow> nat \<Rightarrow> random_stream \<Rightarrow> nat \<Rightarrow> error + (nat list \<times> nat)" where
  "sample_step n_actions k intent_id stream pos =
     (let negative_indexes = filter (\<lambda>i. i \<noteq> intent_id) [0..<n_actions]
      in choice negative_indexes k stream pos)"

text \<open>The inner loop over the steps \<open>h\<close> of one dialogue, and the outer one over \<open>b\<close>.\<close>

fun sample_dialogue ::
  "nat \<Rightarrow> int \<Rightarrow> nat list \<Rightarrow> random_stream \<Rightarrow> nat \<Rightarrow> error + (nat list list \<times> nat)" where
  "sample_dialogue n_actions k [] stream pos = Inr ([], pos)"
| "sample_dialogue n_actions k (intent_id # ids) stream pos =
     (case sample_step n_actions k intent_id stream pos of
        Inl e \<Rightarrow> Inl e
      | Inr (negs, pos1) \<Rightarrow>
          (case sample_dialogue n_actions k ids stream pos1 of
             Inl e \<Rightarrow> Inl e
           | Inr (rest, pos2) \<Rightarrow> Inr (negs # rest, pos2)))"

fun sample_batch ::
  "nat \<Rightarrow> int \<Rightarrow> nat list list \<Rightarrow> random_stream \<Rightarrow> nat \<Rightarrow>
   error + (nat list list list \<times> nat)" where
  "sample_batch n_actions k [] stream pos = Inr ([], pos)"
| "sample_batch n_actions k (ids # idss) stream pos =
     (case sample_dialogue n_actions k ids stream pos of
        Inl e \<Rightarrow> Inl e
      | Inr (negs, pos1) \<Rightarrow>
          (case sample_batch n_actions k idss stream pos1 of
             Inl e \<Rightarrow> Inl e
           | Inr (rest, pos2) \<Rightarrow> Inr (negs # rest, pos2)))"

text \<open>
  The indices \<open>negs\<close> drawn for every \<open>(b, h)\<close> of a batch. \<open>np.zeros\<close> rejects a negative
  \<open>num_neg\<close>; \<open>intent_ids[b, h]\<close> must exist for every step of \<open>batch_pos_b\<close>.
\<close>

definition negative_samples ::
  "'tr policy \<Rightarrow> tensor3 \<Rightarrow> nat list list \<Rightarrow> random_stream \<Rightarrow> nat \<Rightarrow>
   error + (nat list list list \<times> nat)" where
  "negative_samples self batch_pos_b intent_ids stream pos =
     (if num_neg self < 0 then Inl ValueError
      else case encoded_all_actions self of
        None \<Rightarrow> Inl AttributeError
      | Some acts \<Rightarrow>
          let B = length batch_pos_b; T = shape1 batch_pos_b
          in if length intent_ids < B \<or> (\<exists>ids \<in> set (take B intent_ids). length ids < T)
             then Inl IndexError
             else sample_batch (length acts) (num_neg self)
                    (map (\<lambda>b. map (\<lambda>h. intent_ids ! b ! h) [0..<T]) [0..<B]) stream pos)"

text \<open>
  \<open>_create_batch_b\<close>: the correct action's vector followed by the vectors of the drawn
  indices, which pass through an array of integer type and are truncated there.
\<close>

definition create_batch_b ::
  "'tr policy \<Rightarrow> tensor3 \<Rightarrow> nat list list \<Rightarrow> random_stream \<Rightarrow> nat \<Rightarrow>
   error + (tensor4 \<times> nat)" where
  "create_batch_b self batch_pos_b intent_ids stream pos =
     (case negative_samples self batch_pos_b intent_ids stream pos of
        Inl e \<Rightarrow> Inl e
      | Inr (negs, pos1) \<Rightarrow>
          let acts = (case encoded_all_actions self of Some a \<Rightarrow> a | None \<Rightarrow> []);
              batch_neg_b =
                map (map (map (\<lambda>i. map (\<lambda>v. real_of_int (python_int v)) (acts ! i)))) negs
          in Inr (map2 (map2 (\<lambda>pos_b neg_b. pos_b # neg_b)) batch_pos_b batch_neg_b, pos1))"

section \<open>Similarity and loss\<close>

text \<open>
  \<open>tf.nn.l2_normalize(x, -1)\<close> of the numeric runtime: division by the square root of
  the sum of squares, which is kept above \<open>1e-12\<close>.
\<close>

definition l2_normalize :: "tensor1 \<Rightarrow> tensor1" where
  "l2_normalize x = map (\<lambda>v. v / sqrt (max (\<Sum>w\<leftarrow>x. w * w) (1 / 10 ^ 12))) x"

text \<open>\<open>tf.reduce_sum(a * b, -1)\<close> for two vectors.\<close>

definition dot :: "tensor1 \<Rightarrow> tensor1 \<Rightarrow> real" where
  "dot a b = sum_list (map2 (*) a b)"

text \<open>Multiplication of every row of candidates by the mask of its step.\<close>

definition times_mask :: "tensor3 \<Rightarrow> tensor2 \<Rightarrow> tensor3" where
  "times_mask x mask0 = map2 (map2 (\<lambda>row m. map (\<lambda>s. s * m) row)) x mask0"

text \<open>
  \<open>_tf_sim\<close>, on tensors whose leading dimensions agree. \<open>emb_dial\<close> is indexed by
  dialogue and step, \<open>emb_act\<close> by dialogue, step and candidate, the first candidate
  being the correct action.
\<close>

definition tf_sim ::
  "'tr policy \<Rightarrow> tensor3 \<Rightarrow> tensor4 \<Rightarrow> tensor2 \<Rightarrow> error + (tensor3 \<times> tensor3)" where
  "tf_sim self emb_dial0 emb_act0 mask0 =
     (let emb_act = (if similarity_type self = ''cosine''
                     then map (map (map l2_normalize)) emb_act0 else emb_act0);
          emb_dial = (if similarity_type self = ''cosine''
                      then map (map l2_normalize) emb_dial0 else emb_dial0)
      in if similarity_type self = ''cosine'' \<or> similarity_type self = ''inner'' then
           let sim = times_mask
                       (map2 (map2 (\<lambda>d cands. map (\<lambda>a. dot d a) cands)) emb_dial emb_act)
                       mask0;
               sim_act = times_mask
                       (map (map (\<lambda>cands. case cands of
                                             [] \<Rightarrow> []
                                           | a0 # rest \<Rightarrow> map (\<lambda>a. dot a0 a) rest)) emb_act)
                       mask0
           in Inr (sim, sim_act)
         else Inl ValueError)"

text \<open>
  \<open>tf.reduce_max\<close> over the last axis; \<open>None\<close> is the \<open>-inf\<close> it yields on no values.
  \<open>maximum0\<close> is \<open>tf.maximum(0., v)\<close> and \<open>plus_scalar\<close> the sum with a finite scalar.
\<close>

definition reduce_max :: "real list \<Rightarrow> real option" where
  "reduce_max xs = (case xs of [] \<Rightarrow> None | x # rest \<Rightarrow> Some (fold max rest x))"

definition maximum0 :: "real option \<Rightarrow> real" where
  "maximum0 v = (case v of None \<Rightarrow> 0 | Some x \<Rightarrow> max 0 x)"

definition plus_scalar :: "real \<Rightarrow> real option \<Rightarrow> real option" where
  "plus_scalar c v = map_option (\<lambda>x. c + x) v"

text \<open>
  The sum of two vectors under the runtime's broadcasting: a vector of length one is
  repeated along the other.
\<close>

definition broadcast_add :: "real list \<Rightarrow> real list \<Rightarrow> real list" where
  "broadcast_add xs ys =
     (if length xs = 1 \<and> length ys \<noteq> 1 then map (\<lambda>y. hd xs + y) ys
      else if length ys = 1 \<and> length xs \<noteq> 1 then map (\<lambda>x. x + hd ys) xs
      else map2 (+) xs ys)"

text \<open>The loss of one step before the penalty, in the branch \<open>use_max_sim_neg\<close>.\<close>

definition loss_max_sim_neg :: "'tr policy \<Rightarrow> real list \<Rightarrow> real \<Rightarrow> real" where
  "loss_max_sim_neg self row m =
     (let max_sim_neg = reduce_max (drop 1 row)
      in (max 0 (mu_pos self - row ! 0) +
          maximum0 (plus_scalar (mu_neg self) max_sim_neg)) * m)"

text \<open>The same in the other branch: a margin for every candidate, summed.\<close>

definition loss_all_neg :: "'tr policy \<Rightarrow> real list \<Rightarrow> real \<Rightarrow> real" where
  "loss_all_neg self row m =
     (let mu = mu_pos self # replicate (nat (num_neg self)) (mu_neg self);
          factors = (- 1) # replicate (length row - 1) 1;
          max_margin = map (max 0) (broadcast_add mu (map2 (*) factors row))
      in sum_list max_margin * m)"

text \<open>
  The shapes on which the runtime evaluates the loss: \<open>sim\<close>, \<open>sim_act\<close> and \<open>mask\<close>
  agree on dialogues and steps, every step has a first candidate, and in the branch of
  all negatives \<open>num_neg\<close> is not negative and the margins broadcast against the
  candidates.
\<close>

definition loss_shapes :: "'tr policy \<Rightarrow> tensor3 \<Rightarrow> tensor3 \<Rightarrow> tensor2 \<Rightarrow> bool" where
  "loss_shapes self sim sim_act mask0 \<longleftrightarrow>
     list_all2 (\<lambda>s m. length s = length m) sim mask0 \<and>
     list_all2 (\<lambda>s m. length s = length m) sim_act mask0 \<and>
     list_all (list_all (\<lambda>row. row \<noteq> [])) sim \<and>
     (\<not> use_max_sim_neg self \<longrightarrow>
        0 \<le> num_neg self \<and>
        list_all (list_all (\<lambda>row. length row = nat (num_neg self) + 1 \<or>
                                  num_neg self = 0 \<or> length row = 1)) sim)"

text \<open>
  \<open>_tf_loss\<close>. \<open>reg\<close> is \<open>tf.losses.get_regularization_loss()\<close>. The result \<open>None\<close> is
  a loss that is no finite number: a dialogue without a valid step, or no dialogue.
\<close>

definition tf_loss ::
  "'tr policy \<Rightarrow> tensor3 \<Rightarrow> tensor3 \<Rightarrow> tensor2 \<Rightarrow> real \<Rightarrow> error + real option" where
  "tf_loss self sim sim_act mask0 reg =
     (if \<not> loss_shapes self sim sim_act mask0 then Inl InvalidArgument
      else
        let loss0 = map2 (map2 (if use_max_sim_neg self then loss_max_sim_neg self
                                else loss_all_neg self)) sim mask0;
            loss_act = map (map (\<lambda>row. maximum0 (reduce_max row))) sim_act;
            loss1 = map2 (map2 (\<lambda>l la. l + la * C_emb self)) loss0 loss_act;
            loss2 = map2 (\<lambda>l m. if sum_list m = 0 then None
                                 else Some (sum_list l / sum_list m)) loss1 mask0
        in Inr (if loss2 = [] \<or> None \<in> set loss2 then None
                else Some (sum_list (map the loss2) / real (length loss2) + reg)))"

text \<open>
  The loss as the specification words it for \<open>use_max_sim_neg\<close>: per step the two
  hinges and \<open>C_emb\<close> times the maximum of \<open>sim_act\<close> itself, masked, summed over the
  steps, divided by the number of valid steps, averaged over the dialogues, plus the
  regularization loss.
\<close>

definition hinge :: "real \<Rightarrow> real" where
  "hinge x = max 0 x"

definition specified_loss ::
  "'tr policy \<Rightarrow> tensor3 \<Rightarrow> tensor3 \<Rightarrow> tensor2 \<Rightarrow> real \<Rightarrow> real" where
  "specified_loss self sim sim_act mask0 reg =
     (\<Sum>b < length mask0.
        (\<Sum>t < length (mask0 ! b).
           (hinge (mu_pos self - sim ! b ! t ! 0) +
            hinge (mu_neg self + Max (set (drop 1 (sim ! b ! t)))) +
            C_emb self * Max (set (sim_act ! b ! t))) * mask0 ! b ! t)
        / (\<Sum>t < length (mask0 ! b). mask0 ! b ! t))
     / real (length mask0) + reg"

section \<open>Time-limited attention\<close>

text \<open>
  The attention code acts on every batch element separately: the gate and the
  sharpening exponent are one number per element, softmax and sums run along the memory
  axis, and the depthwise convolution takes the batch as its channels, one kernel per
  element. The model is that of one batch element.
\<close>

text \<open>\<open>tf.nn.softmax\<close> and \<open>tf.nn.softplus\<close> of the numeric runtime.\<close>

definition softmax :: "real list \<Rightarrow> real list" where
  "softmax xs = map (\<lambda>x. exp x / (\<Sum>y\<leftarrow>xs. exp y)) xs"

definition softplus :: "real \<Rightarrow> real" where
  "softplus a = ln (1 + exp a)"

text \<open>
  A dense layer \<open>tf.layers.Dense\<close> before its activation: one kernel column and one
  bias per unit. The parameters are learned; they are arguments here.
\<close>

type_synonym dense = "(real list \<times> real) list"

definition dense_apply :: "dense \<Rightarrow> real list \<Rightarrow> real list" where
  "dense_apply units x = map (\<lambda>wb. dot x (fst wb) + snd wb) units"

text \<open>
  \<open>TimedNTM\<close>: the interpolation gate, the shift weighting (absent when
  \<open>attn_shift_range\<close> is \<open>None\<close> or 0) and the sharpening exponent, each a function of
  the cell output.
\<close>

record timed_ntm =
  gate :: "real list \<Rightarrow> real"
  s_w :: "(real list \<Rightarrow> real list) option"
  gamma :: "real list \<Rightarrow> real"

text \<open>
  \<open>TimedNTM.__init__\<close>. The gate and the exponent have one unit; the shift weighting
  has \<open>2 * attn_shift_range + 1\<close> units, a number that must be positive.
\<close>

definition TimedNTM_init ::
  "int option \<Rightarrow> real list \<times> real \<Rightarrow> dense \<Rightarrow> real list \<times> real \<Rightarrow> error + timed_ntm" where
  "TimedNTM_init attn_shift_range0 gate_unit s_w_units gamma_unit =
     (let shift = (case attn_shift_range0 of None \<Rightarrow> 0 | Some r \<Rightarrow> r)
      in if shift \<noteq> 0 \<and> (2 * shift + 1 \<le> 0 \<or> int (length s_w_units) \<noteq> 2 * shift + 1)
         then Inl ValueError
         else Inr \<lparr>
           gate = (\<lambda>x. sigmoid (dot x (fst gate_unit) + snd gate_unit)),
           s_w = (if shift \<noteq> 0 then Some (\<lambda>x. softmax (dense_apply s_w_units x)) else None),
           gamma = (\<lambda>x. softplus (dot x (fst gamma_unit) + snd gamma_unit) + 1.0)\<rparr>)"

text \<open>
  \<open>tf.nn.depthwise_conv2d_native\<close> with stride 1 and padding \<open>'SAME'\<close> along the one
  axis that has extent: output position \<open>i\<close> is the sum over the kernel positions \<open>k\<close>
  of the input at \<open>i + k - (K - 1) div 2\<close>, zero outside the input, times the kernel
  at \<open>k\<close>.
\<close>

definition conv_same :: "real list \<Rightarrow> real list \<Rightarrow> real list" where
  "conv_same xs w =
     map (\<lambda>i. \<Sum>k\<leftarrow>[0..<length w].
            (let j = int i + int k - int ((length w - 1) div 2)
             in if 0 \<le> j \<and> j < int (length xs) then xs ! nat j else 0) * w ! k)
         [0..<length xs]"

text \<open>The constant \<open>1e-32\<close> added to the divisor of the sharpening.\<close>

definition sharpen_epsilon :: real where
  "sharpen_epsilon = 1 / 10 ^ 32"

text \<open>
  The sum \<open>s + 1e-32\<close> as single-precision arithmetic yields it for an \<open>s\<close> that is not
  negative. The numbers of that type in \<open>[2^e, 2^(e+1))\<close> are \<open>2^(e-23)\<close> apart, so
  from \<open>s = 2^-82\<close> on the constant is less than half their distance
  (\<open>1e-32 < 2^-106\<close>) and the sum is rounded back to \<open>s\<close>: the constant is absorbed.
  Below \<open>2^-82\<close> it is not, and the sum is taken exactly here; its rounding to the next
  number of the type is left out, as is the rounding of every other operation of the
  attention code.
\<close>

definition absorbing_from :: real where
  "absorbing_from = 1 / 2 ^ 82"

definition plus_epsilon :: "real \<Rightarrow> real" where
  "plus_epsilon s = (if absorbing_from \<le> s then s else s + sharpen_epsilon)"

text \<open>The last two statements of \<open>TimedNTM.__call__\<close>: sharpening.\<close>

definition sharpen :: "real \<Rightarrow> real list \<Rightarrow> real list" where
  "sharpen gamma0 probs =
     (let powed_probs = map (\<lambda>p. p powr gamma0) probs
      in map (\<lambda>p. p / plus_epsilon (sum_list powed_probs)) powed_probs)"

text \<open>
  \<open>TimedNTM.__call__\<close>. \<open>probs\<close> holds the scores of the positions up to now and
  \<open>probs_state\<close> the carried state of the positions before now; the runtime rejects
  the interpolation when their lengths do not fit.
\<close>

definition TimedNTM_call ::
  "timed_ntm \<Rightarrow> real list \<Rightarrow> real list \<Rightarrow> real list \<Rightarrow> error + (real list \<times> real list)" where
  "TimedNTM_call self cell_output probs0 probs_state =
     (let g = gate self cell_output
      in if length (butlast probs0) \<noteq> length probs_state then Inl InvalidArgument
         else
           let probs1 = map2 (\<lambda>p s. g * p + (1 - g) * s) (butlast probs0) probs_state
                        @ drop (length probs0 - 1) probs0;
               next_probs_state = probs1;
               probs2 = softmax probs1;
               probs3 = (case s_w self of
                           None \<Rightarrow> probs2
                         | Some layer \<Rightarrow>
                             let w = layer cell_output;
                                 conv_probs = conv_same (rev probs2) w
                             in rev conv_probs);
               probs4 = sharpen (gamma self cell_output) probs3
           in Inr (probs4, next_probs_state))"

text \<open>
  \<open>_compute_time_attention\<close>. \<open>attention_mechanism\<close> is the scoring of the runtime's
  Bahdanau attention, which yields one score per memory position, and \<open>values\<close> its
  memory, one vector per position. \<open>attention_layer\<close> is \<open>None\<close> or a layer.
\<close>

definition compute_time_attention ::
  "(real list \<Rightarrow> real list \<Rightarrow> real list) \<Rightarrow> real list list \<Rightarrow> real list \<Rightarrow> real list \<Rightarrow>
   nat \<Rightarrow> timed_ntm \<Rightarrow> (real list \<Rightarrow> real list) option \<Rightarrow>
   error + (real list \<times> real list \<times> real list)" where
  "compute_time_attention attention_mechanism values cell_output attention_state
       time timed_ntm0 attention_layer =
     (let alignments0 = attention_mechanism cell_output attention_state;
          probs = take (time + 1) alignments0;
          probs_state = take time attention_state
      in case TimedNTM_call timed_ntm0 cell_output probs probs_state of
           Inl e \<Rightarrow> Inl e
         | Inr (probs1, next_probs_state) \<Rightarrow>
             let zeros = replicate (length alignments0) 0;
                 alignments = probs1 @ drop (time + 1) zeros;
                 next_attention_state = next_probs_state @ drop (time + 1) zeros
             in if length alignments \<noteq> length values then Inl InvalidArgument
                else
                  let context = foldr (map2 (+))
                                  (map2 (\<lambda>a v. map (\<lambda>x. a * x) v) alignments values)
                                  (replicate (shape1 values) 0);
                      attention = (case attention_layer of
                                     Some layer \<Rightarrow> layer (cell_output @ context)
                                   | None \<Rightarrow> context)
                  in Inr (attention, alignments, next_attention_state))"

section \<open>A small scenario\<close>

text \<open>
  A domain of two actions, a featurizer that yields one dialogue of one step, and two
  sessions whose similarity node evaluates to a fixed row: concrete objects on which the
  theorems below are run.
\<close>

definition example_featurizer :: "unit featurizer" where
  "example_featurizer = \<lparr>
     is_full_dialogue = True,
     share_vocab = Some False,
     user_feature_len = 1,
     slot_feature_len = 1,
     create_X = (\<lambda>trackers domain0. [[[1, 0, 1]]]),
     create_encoded_all_actions = (\<lambda>domain0. [[1, 0], [0, 1]]) \<rparr>"

definition example_domain :: domain where
  "example_domain = \<lparr>num_actions = 2\<rparr>"

definition example_data :: training_data where
  "example_data = \<lparr>td_X = [[[1, 0, 1]]], td_y = [[[0, 1]]], true_length = [1]\<rparr>"

definition zero_session :: session where
  "zero_session = (\<lambda>fetch feed. Inr [[[0, 0]]])"

definition mixed_session :: session where
  "mixed_session = (\<lambda>fetch feed. Inr [[[3, 4], [- 1 / 2, 1 / 2]]])"

definition example_untrained :: "unit policy" where
  "example_untrained =
     projr (init True example_featurizer None None None None
              PyNone PyNone PyNone PyNone PyNone None)"

definition example_inner :: "unit policy" where
  "example_inner =
     projr (train example_untrained example_data example_domain
              [Similarity_type ''inner''] zero_session)"

definition example_cosine :: "unit policy" where
  "example_cosine =
     projr (train example_untrained example_data example_domain [] mixed_session)"

text \<open>A session whose similarity node gives the first action an inner product of 100.\<close>

definition large_session :: session where
  "large_session = (\<lambda>fetch feed. Inr [[[100, 0]]])"

definition example_large :: "unit policy" where
  "example_large =
     projr (train example_untrained example_data example_domain
              [Similarity_type ''inner''] large_session)"

definition example_inner_fs :: "unit filesystem" where
  "example_inner_fs = snd (projr (snd (persist example_inner ''model'' Map.empty)))"

definition example_inner_persisted :: "unit policy" where
  "example_inner_persisted = fst (projr (snd (persist example_inner ''model'' Map.empty)))"

definition example_inner_loaded :: "unit policy" where
  "example_inner_loaded = projr (load True example_featurizer ''model'' example_inner_fs)"

definition example_cell_policy :: "unit policy" where
  "example_cell_policy = example_untrained\<lparr>characteristic_time := Some 3, rnn_size := 1\<rparr>"

definition three_actions_featurizer :: "unit featurizer" where
  "three_actions_featurizer = example_featurizer\<lparr>
     create_encoded_all_actions := (\<lambda>domain0. [[1, 0, 0], [0, 1, 0], [0, 0, 1]])\<rparr>"

definition three_actions_domain :: domain where
  "three_actions_domain = \<lparr>num_actions = 3\<rparr>"

definition three_actions_policy :: "unit policy" where
  "three_actions_policy =
     projr (train (projr (init True three_actions_featurizer None None None None
                            PyNone PyNone PyNone PyNone PyNone None))
              example_data three_actions_domain [] zero_session)"

definition constant_stream :: random_stream where
  "constant_stream = (\<lambda>k. 0)"

definition counting_stream :: random_stream where
  "counting_stream = (\<lambda>k. k)"

text \<open>
  A shift weighting of range 3 whose bias puts nearly all weight on the outermost
  shift, an exponent layer whose output makes the sharpening exponent 2, a shift-free
  \<open>TimedNTM\<close>, and a scoring that yields two zero scores.
\<close>

definition far_shift_units :: dense where
  "far_shift_units =
     [([], ln (10 ^ 16 - 6)), ([], 0), ([], 0), ([], 0), ([], 0), ([], 0), ([], 0)]"

definition far_shift_ntm :: timed_ntm where
  "far_shift_ntm =
     projr (TimedNTM_init (Some 3) ([], 0) far_shift_units ([], ln (exp 1 - 1)))"

definition no_shift_ntm :: timed_ntm where
  "no_shift_ntm = projr (TimedNTM_init (Some 0) ([], 0) [] ([], 0))"

definition zero_scores :: "real list \<Rightarrow> real list \<Rightarrow> real list" where
  "zero_scores = (\<lambda>cell_output attention_state. [0, 0])"

section \<open>Auxiliary notions\<close>

text \<open>
  Two policy objects hold the same featurizer, session, graph, handles and table of
  encoded actions: everything but the hyperparameters.
\<close>

definition same_instances :: "'tr policy \<Rightarrow> 'tr policy \<Rightarrow> bool" where
  "same_instances p1 p \<longleftrightarrow>
     featurizer p1 = featurizer p \<and>
     session p1 = session p \<and> graph p1 = graph p \<and> a_in p1 = a_in p \<and> b_in p1 = b_in p \<and>
     c_in p1 = c_in p \<and> b_prev_in p1 = b_prev_in p \<and> sim_op p1 = sim_op p \<and>
     alignment_history p1 = alignment_history p \<and>
     encoded_all_actions p1 = encoded_all_actions p"

section \<open>Hidden layer sizes\<close>

lemma check_first_length:
  "check_first n ls = Inr ls' \<Longrightarrow> 0 \<le> n \<Longrightarrow> int (length (broadcast n ls')) = n"
  by (auto simp: check_first_def broadcast_def split: layer_size.splits list.splits if_splits)

lemma check_first_error:
  "check_first n ls = Inl e \<longleftrightarrow> e = ValueError \<and> ls = IsList [] \<and> n \<noteq> 0"
  by (auto simp: check_first_def split: layer_size.splits list.splits if_splits)

text \<open>
  What \<open>_check_hidden_layer_sizes\<close> does with every layer count and every size value:
  it raises \<open>ValueError\<close>, exactly when the size list is empty and the count is positive,
  or returns the count clamped below at zero together with a list of exactly that many
  sizes.
\<close>

lemma check_hidden_layer_sizes_cases:
  "(check_hidden_layer_sizes n ls = Inl ValueError \<and> ls = IsList [] \<and> 0 < n) \<or>
   (\<exists>sizes. check_hidden_layer_sizes n ls = Inr (max 0 n, sizes) \<and>
      int (length sizes) = max 0 n \<and>
      \<not> (ls = IsList [] \<and> 0 < n) \<and>
      sizes = (case ls of
                 NotList v \<Rightarrow> replicate (nat n) v
               | IsList xs \<Rightarrow>
                   if int (length xs) = max 0 n then xs else replicate (nat n) (hd xs)))"
  by (cases ls; cases "n < 0")
     (auto simp: check_hidden_layer_sizes_def check_first_def broadcast_def Let_def max_def
           split: list.splits)

lemma load_params_fields:
  "load_params kwargs p = Inr q \<Longrightarrow>
   \<exists>p1. load_nn_architecture_params (update defaults kwargs) p = Inr p1 \<and>
     num_hidden_layers_a q = num_hidden_layers_a p1 \<and>
     hidden_layer_size_a q = hidden_layer_size_a p1 \<and>
     num_hidden_layers_b q = num_hidden_layers_b p1 \<and>
     hidden_layer_size_b q = hidden_layer_size_b p1"
  by (auto simp: load_params_def Let_def load_visual_params_def load_attn_params_def
        load_regularization_params_def load_embedding_params_def split: sum.splits)

text \<open>
  Every pair of a layer count and a size value is one that keyword overrides configure,
  for either tower.
\<close>

lemma update_layer_keys:
  "cfg_num_hidden_layers_a
     (update defaults [Num_hidden_layers_a n, Hidden_layer_size_a ls]) = n"
  "cfg_hidden_layer_size_a
     (update defaults [Num_hidden_layers_a n, Hidden_layer_size_a ls]) = ls"
  "cfg_num_hidden_layers_b
     (update defaults [Num_hidden_layers_b n, Hidden_layer_size_b ls]) = n"
  "cfg_hidden_layer_size_b
     (update defaults [Num_hidden_layers_b n, Hidden_layer_size_b ls]) = ls"
  by (simp_all add: update_def)

lemma example_untrained_share: "\<not> share_embedding example_untrained"
  by (simp add: example_untrained_def init_def load_params_def update_def defaults_def
      load_nn_architecture_params_def check_hidden_layer_sizes_def check_first_def
      broadcast_def load_embedding_params_def load_regularization_params_def
      load_attn_params_def load_visual_params_def Let_def blank_def example_featurizer_def)

text \<open>
  C6. Configuration loading, \<open>_load_params\<close> with any keyword overrides on any policy
  object, where \<open>(na, lsa)\<close> and \<open>(nb, lsb)\<close> are the layer counts and size values that
  the defaults and the overrides give to the two towers. If either tower has an empty
  size list together with a positive count, loading raises \<open>ValueError\<close>. In every other
  case it succeeds and leaves a policy whose \<open>num_hidden_layers_a\<close> is the count clamped
  below at zero and whose \<open>hidden_layer_size_a\<close> is a list of exactly that length: the
  configured list when it has that length, a value that is not a list repeated, and
  the first element repeated for a list of another length. The attributes of tower
  \<open>b\<close> are those of tower \<open>a\<close> when the embedding is shared and are fitted in the same
  way otherwise; their length too equals the count.
\<close>

theorem load_params_hidden_layer_sizes:
  fixes p :: "'tr policy"
  shows
  "let c = update defaults kwargs;
       na = cfg_num_hidden_layers_a c; lsa = cfg_hidden_layer_size_a c;
       nb = cfg_num_hidden_layers_b c; lsb = cfg_hidden_layer_size_b c;
       fatal = (\<lambda>n ls. ls = IsList [] \<and> 0 < n);
       fit = (\<lambda>n ls. case ls of
                NotList v \<Rightarrow> replicate (nat n) v
              | IsList xs \<Rightarrow>
                  if int (length xs) = max 0 n then xs else replicate (nat n) (hd xs))
   in if fatal na lsa \<or> fatal nb lsb then load_params kwargs p = Inl ValueError
      else \<exists>q. load_params kwargs p = Inr q \<and>
             num_hidden_layers_a q = max 0 na \<and>
             hidden_layer_size_a q = fit na lsa \<and>
             int (length (hidden_layer_size_a q)) = num_hidden_layers_a q \<and>
             int (length (hidden_layer_size_b q)) = num_hidden_layers_b q \<and>
             (if share_embedding p
              then num_hidden_layers_b q = num_hidden_layers_a q \<and>
                   hidden_layer_size_b q = hidden_layer_size_a q
              else num_hidden_layers_b q = max 0 nb \<and> hidden_layer_size_b q = fit nb lsb)"
proof -
  let ?c = "update defaults kwargs"
  let ?na = "cfg_num_hidden_layers_a ?c" and ?lsa = "cfg_hidden_layer_size_a ?c"
  let ?nb = "cfg_num_hidden_layers_b ?c" and ?lsb = "cfg_hidden_layer_size_b ?c"
  let ?fit = "\<lambda>n ls. case ls of
                NotList v \<Rightarrow> replicate (nat n) v
              | IsList xs \<Rightarrow>
                  if int (length xs) = max 0 n then xs else replicate (nat n) (hd xs)"
  note a = check_hidden_layer_sizes_cases[of ?na ?lsa]
  note b = check_hidden_layer_sizes_cases[of ?nb ?lsb]
  show ?thesis
  proof (cases "(?lsa = IsList [] \<and> 0 < ?na) \<or> (?lsb = IsList [] \<and> 0 < ?nb)")
    case True
    have "load_nn_architecture_params ?c p = Inl ValueError"
    proof (cases "?lsa = IsList [] \<and> 0 < ?na")
      case True
      with a have "check_hidden_layer_sizes ?na ?lsa = Inl ValueError" by auto
      then show ?thesis by (simp add: load_nn_architecture_params_def)
    next
      case False
      with a obtain sa where sa: "check_hidden_layer_sizes ?na ?lsa = Inr (max 0 ?na, sa)"
        by auto
      from False True b have "check_hidden_layer_sizes ?nb ?lsb = Inl ValueError" by auto
      with sa show ?thesis by (simp add: load_nn_architecture_params_def)
    qed
    then have "load_params kwargs p = Inl ValueError"
      by (simp add: load_params_def Let_def)
    with True show ?thesis by (simp add: Let_def)
  next
    case False
    with a obtain sa where
      sa: "check_hidden_layer_sizes ?na ?lsa = Inr (max 0 ?na, sa)"
          "int (length sa) = max 0 ?na" "sa = ?fit ?na ?lsa"
      by auto
    from False b obtain sb where
      sb: "check_hidden_layer_sizes ?nb ?lsb = Inr (max 0 ?nb, sb)"
          "int (length sb) = max 0 ?nb" "sb = ?fit ?nb ?lsb"
      by auto
    let ?p1 = "p\<lparr>
               num_hidden_layers_a := max 0 ?na,
               hidden_layer_size_a := sa,
               num_hidden_layers_b :=
                 (if share_embedding p \<and> (max 0 ?na \<noteq> max 0 ?nb \<or> sa \<noteq> sb)
                  then max 0 ?na else max 0 ?nb),
               hidden_layer_size_b :=
                 (if share_embedding p \<and> (max 0 ?na \<noteq> max 0 ?nb \<or> sa \<noteq> sb)
                  then sa else sb),
               rnn_size := cfg_rnn_size ?c,
               batch_size := cfg_batch_size ?c,
               epochs := cfg_epochs ?c\<rparr>"
    have p1: "load_nn_architecture_params ?c p = Inr ?p1"
      by (simp add: load_nn_architecture_params_def sa(1) sb(1))
    then obtain q where q: "load_params kwargs p = Inr q"
      by (simp add: load_params_def Let_def)
    from load_params_fields[OF q] p1 have f:
      "num_hidden_layers_a q = num_hidden_layers_a ?p1"
      "hidden_layer_size_a q = hidden_layer_size_a ?p1"
      "num_hidden_layers_b q = num_hidden_layers_b ?p1"
      "hidden_layer_size_b q = hidden_layer_size_b ?p1"
      by simp_all
    have r: "num_hidden_layers_a q = max 0 ?na" "hidden_layer_size_a q = sa"
      "int (length (hidden_layer_size_b q)) = num_hidden_layers_b q"
      "share_embedding p \<Longrightarrow> num_hidden_layers_b q = max 0 ?na \<and> hidden_layer_size_b q = sa"
      "\<not> share_embedding p \<Longrightarrow> num_hidden_layers_b q = max 0 ?nb \<and> hidden_layer_size_b q = sb"
      unfolding f using sa(2) sb(2) by auto
    from False q r sa(2,3) sb(3) show ?thesis
      unfolding Let_def by (cases "share_embedding p") auto
  qed
qed

theorem load_params_hidden_layer_sizes_witness:
  "(\<exists>q. load_params [Num_hidden_layers_a 3, Hidden_layer_size_a (IsList [5, 7]),
                      Num_hidden_layers_b (- 1), Hidden_layer_size_b (NotList 4)]
           example_untrained = Inr q \<and>
        num_hidden_layers_a q = 3 \<and> hidden_layer_size_a q = [5, 5, 5] \<and>
        num_hidden_layers_b q = 0 \<and> hidden_layer_size_b q = []) \<and>
   (\<exists>q. load_params [Num_hidden_layers_a 2, Hidden_layer_size_a (NotList 8)]
           (example_untrained\<lparr>share_embedding := True\<rparr>) = Inr q \<and>
        num_hidden_layers_a q = 2 \<and> hidden_layer_size_a q = [8, 8] \<and>
        num_hidden_layers_b q = 2 \<and> hidden_layer_size_b q = [8, 8]) \<and>
   load_params [Num_hidden_layers_b 2] example_untrained = Inl ValueError"
  using load_params_hidden_layer_sizes
          [of "[Num_hidden_layers_a 3, Hidden_layer_size_a (IsList [5, 7]),
                Num_hidden_layers_b (- 1), Hidden_layer_size_b (NotList 4)]" example_untrained]
        load_params_hidden_layer_sizes
          [of "[Num_hidden_layers_a 2, Hidden_layer_size_a (NotList 8)]"
              "example_untrained\<lparr>share_embedding := True\<rparr>"]
        load_params_hidden_layer_sizes [of "[Num_hidden_layers_b 2]" example_untrained]
  by (simp add: update_def defaults_def Let_def example_untrained_share numeral_3_eq_3
        numeral_2_eq_2) auto

section \<open>The default configuration\<close>

lemma check_defaults:
  "check_hidden_layer_sizes 0 (IsList ([]::int list)) = Inr (0, [])"
  by (simp add: check_hidden_layer_sizes_def check_first_def broadcast_def)

lemma load_params_nil:
  "load_params [] self = Inr (self\<lparr>
     num_hidden_layers_a := 0, hidden_layer_size_a := [],
     num_hidden_layers_b := 0, hidden_layer_size_b := [],
     rnn_size := 32, batch_size := 16, epochs := 1,
     embed_dim := 20, mu_pos := 0.8, mu_neg := - 0.2,
     similarity_type := ''cosine'', num_neg := 20, use_max_sim_neg := True,
     C2 := 0.001, C_emb := 0.8,
     droprate := \<lparr>dr_a = 0, dr_b = 0, dr_slt = 0, dr_rnn = 0.1, dr_out = 0.1\<rparr>,
     score_noise := 0, use_attention := True, attn_shift_range := None,
     calc_acc_ones_in_epochs := 50, calc_acc_on_num_examples := 100\<rparr>)"
  by (simp add: load_params_def update_def defaults_def load_nn_architecture_params_def
      check_defaults load_embedding_params_def load_regularization_params_def
      load_attn_params_def load_visual_params_def)


section \<open>What \<open>persist\<close> writes and \<open>load\<close> restores\<close>

lemma init_fields:
  assumes "init tf std fz0 acts s g a b c bp so al = Inr self"
  shows "session self = s" "graph self = g" "a_in self = a" "b_in self = b" "c_in self = c"
    "b_prev_in self = bp" "sim_op self = so" "alignment_history self = al"
    "encoded_all_actions self = acts"
    "featurizer self = (case fz0 of Some f \<Rightarrow> f | None \<Rightarrow> std)"
    "similarity_type self = ''cosine''"
  using assms by (auto simp: init_def load_params_nil Let_def blank_def split: if_splits)

lemma fold_add_alignments_other:
  "(\<And>i. k \<noteq> Alignment_history i) \<Longrightarrow> fold add_alignments ihs g k = g k"
  by (induction ihs arbitrary: g) (auto simp: add_alignments_def)

lemma persist_Inr:
  assumes "persist p path fs = (logs, Inr (p', fs'))" "session p = Some s"
  shows "\<exists>g hs dir0. graph p = Some g \<and> alignment_history p = Some hs \<and>
     fs' = fs(path \<mapsto> dir0\<lparr>featurizer_file := Some (featurizer p),
        ckpt_meta := Some (fold add_alignments (enumerate 0 hs)
           (g(Intent_placeholder := [a_in p], Action_placeholder := [b_in p],
              Slots_placeholder := [c_in p], Prev_act_placeholder := [b_prev_in p],
              Similarity_op := [sim_op p]))),
        ckpt_data := Some s,
        encoded_all_actions_pkl := Some (encoded_all_actions p)\<rparr>)"
  using assms
  by (auto simp: persist_def Let_def split: option.splits)

lemma predict_cong:
  assumes "featurizer q = featurizer p" "session q = session p" "a_in q = a_in p"
    "b_in q = b_in p" "c_in q = c_in p" "b_prev_in q = b_prev_in p" "sim_op q = sim_op p"
    "encoded_all_actions q = encoded_all_actions p" "similarity_type q = similarity_type p"
  shows "predict_action_probabilities q tracker d = predict_action_probabilities p tracker d"
  using assms
  by (cases "session p")
     (simp_all add: predict_action_probabilities_def create_X_slots_def create_all_Y_d_def
        Let_def cong: sum.case_cong)

lemma roundtrip:
  assumes P: "persist p path fs = (logs, Inr (p', fs'))" and S: "session p = Some s"
    and L: "load tf std path fs' = Inr q"
  shows "featurizer q = featurizer p \<and> session q = session p \<and> a_in q = a_in p \<and>
    b_in q = b_in p \<and> c_in q = c_in p \<and> b_prev_in q = b_prev_in p \<and> sim_op q = sim_op p \<and>
    encoded_all_actions q = encoded_all_actions p \<and> similarity_type q = ''cosine''"
proof -
  from persist_Inr[OF P S] obtain g hs dir0 where
    fs': "fs' = fs(path \<mapsto> dir0\<lparr>featurizer_file := Some (featurizer p),
        ckpt_meta := Some (fold add_alignments (enumerate 0 hs)
           (g(Intent_placeholder := [a_in p], Action_placeholder := [b_in p],
              Slots_placeholder := [c_in p], Prev_act_placeholder := [b_prev_in p],
              Similarity_op := [sim_op p]))),
        ckpt_data := Some s,
        encoded_all_actions_pkl := Some (encoded_all_actions p)\<rparr>)"
    by blast
  from L obtain al where
    I: "init tf std (Some (featurizer p)) (encoded_all_actions p) (Some s)
          (Some (fold add_alignments (enumerate 0 hs)
           (g(Intent_placeholder := [a_in p], Action_placeholder := [b_in p],
              Slots_placeholder := [c_in p], Prev_act_placeholder := [b_prev_in p],
              Similarity_op := [sim_op p]))))
          (a_in p) (b_in p) (c_in p) (b_prev_in p) (sim_op p) al = Inr q"
    unfolding fs' load_def
    by (auto simp: Let_def first_of_def fold_add_alignments_other
             split: if_splits)
  from init_fields[OF I] S show ?thesis by simp
qed

lemma roundtrip_loads:
  assumes P: "persist p path fs = (logs, Inr (p', fs'))" and S: "session p = Some s"
    and F: "is_full_dialogue (featurizer p)"
  shows "\<exists>q. load True std path fs' = Inr q"
proof -
  from persist_Inr[OF P S] obtain g hs dir0 where
    fs': "fs' = fs(path \<mapsto> dir0\<lparr>featurizer_file := Some (featurizer p),
        ckpt_meta := Some (fold add_alignments (enumerate 0 hs)
           (g(Intent_placeholder := [a_in p], Action_placeholder := [b_in p],
              Slots_placeholder := [c_in p], Prev_act_placeholder := [b_prev_in p],
              Similarity_op := [sim_op p]))),
        ckpt_data := Some s,
        encoded_all_actions_pkl := Some (encoded_all_actions p)\<rparr>)"
    by blast
  show ?thesis
    unfolding fs' load_def
    by (simp add: Let_def first_of_def fold_add_alignments_other init_def load_params_nil F)
qed

lemma example_untrained_eq:
  "init True example_featurizer None None None None
              PyNone PyNone PyNone PyNone PyNone None = Inr example_untrained"
  by (simp add: example_untrained_def init_def load_params_nil example_featurizer_def)

lemma example_untrained_session: "session example_untrained = None"
  using init_fields(1)[OF example_untrained_eq] .

lemma load_params_inner:
  "load_params [Similarity_type ''inner''] self =
     Inr ((projr (load_params [] self))\<lparr>similarity_type := ''inner''\<rparr>)"
  by (simp add: load_params_def update_def defaults_def load_nn_architecture_params_def
      check_defaults load_embedding_params_def load_regularization_params_def
      load_attn_params_def load_visual_params_def)

lemma example_inner_eq:
  "train example_untrained example_data example_domain
              [Similarity_type ''inner''] zero_session = Inr example_inner"
  by (simp add: example_inner_def train_def load_params_inner load_params_nil np_mean_def
       example_data_def Let_def)

lemma train_Inr:
  assumes "train p0 data d kwargs fitted = Inr p"
  shows "session p = Some fitted" "\<exists>g. graph p = Some g" "\<exists>hs. alignment_history p = Some hs"
    "\<exists>p1. (if kwargs \<noteq> [] then load_params kwargs p0 else Inr p0) = Inr p1 \<and>
          featurizer p = featurizer p1 \<and> similarity_type p = similarity_type p1"
  using assms
  by (auto simp: train_def Let_def split: sum.splits option.splits if_splits)

lemma load_nn_architecture_params_same:
  "load_nn_architecture_params config p = Inr p1 \<Longrightarrow> same_instances p1 p"
  unfolding load_nn_architecture_params_def same_instances_def
  by (cases "check_hidden_layer_sizes (cfg_num_hidden_layers_a config)
             (cfg_hidden_layer_size_a config)";
      cases "check_hidden_layer_sizes (cfg_num_hidden_layers_b config)
             (cfg_hidden_layer_size_b config)")
     (auto simp: Let_def split: if_splits)

lemma load_params_same:
  "load_params kwargs p = Inr p1 \<Longrightarrow> same_instances p1 p"
  unfolding load_params_def Let_def
  by (cases "load_nn_architecture_params (update defaults kwargs) p")
     (auto dest!: load_nn_architecture_params_same
           simp: same_instances_def load_embedding_params_def load_regularization_params_def
                 load_attn_params_def load_visual_params_def)

lemma persist_fs_cong:
  assumes "featurizer p2 = featurizer p" "session p2 = session p" "graph p2 = graph p"
    "a_in p2 = a_in p" "b_in p2 = b_in p" "c_in p2 = c_in p" "b_prev_in p2 = b_prev_in p"
    "sim_op p2 = sim_op p" "alignment_history p2 = alignment_history p"
    "encoded_all_actions p2 = encoded_all_actions p"
  shows "map_sum id snd (snd (persist p2 path fs)) = map_sum id snd (snd (persist p path fs))"
  using assms
  by (cases "session p"; cases "graph p"; cases "alignment_history p")
     (simp_all add: persist_def Let_def)

lemma persist_ok:
  assumes "session p = Some s" "graph p = Some g" "alignment_history p = Some hs"
  shows "\<exists>p' fs'. persist p path fs = ([], Inr (p', fs'))"
  using assms by (simp add: persist_def Let_def)

lemma init_defaults:
  assumes "init tf std fz0 acts s g a b c bp so al = Inr q"
  shows "(num_hidden_layers_a q, hidden_layer_size_a q, num_hidden_layers_b q,
          hidden_layer_size_b q, rnn_size q, batch_size q, epochs q) = (0, [], 0, [], 32, 16, 1)"
    "(embed_dim q, mu_pos q, mu_neg q, similarity_type q, num_neg q, use_max_sim_neg q) =
       (20, 0.8, - 0.2, ''cosine'', 20, True)"
    "(C2 q, C_emb q, droprate q) =
       (0.001, 0.8, \<lparr>dr_a = 0, dr_b = 0, dr_slt = 0, dr_rnn = 0.1, dr_out = 0.1\<rparr>)"
    "(score_noise q, use_attention q, attn_shift_range q) = (0, True, None)"
    "(calc_acc_ones_in_epochs q, calc_acc_on_num_examples q) = (50, 100)"
  using assms by (auto simp: init_def load_params_nil Let_def split: if_splits)

lemma load_Inr_init:
  assumes "load tf std path fs = Inr q"
  shows "\<exists>fz0 acts s g a b c bp so al. init tf std fz0 acts s g a b c bp so al = Inr q"
  using assms
  by (auto simp: load_def Let_def split: option.splits sum.splits if_splits) blast+

section \<open>Inference scores\<close>

lemma sum_list_exp_nonneg: "0 \<le> (\<Sum>x\<leftarrow>xs. exp (x::real))"
  by (induction xs) auto

lemma sum_list_exp_pos: "xs \<noteq> [] \<Longrightarrow> 0 < (\<Sum>x\<leftarrow>xs. exp (x::real))"
  using sum_list_exp_nonneg by (cases xs) (auto intro: add_pos_nonneg)

lemma softmax_sums_to_one:
  assumes "xs \<noteq> []"
  shows "(\<Sum>x\<leftarrow>xs. exp (x::real) / (\<Sum>y\<leftarrow>xs. exp y)) = 1"
proof -
  have "(\<Sum>x\<leftarrow>xs. exp x / (\<Sum>y\<leftarrow>xs. exp y)) = (\<Sum>x\<leftarrow>xs. exp x * inverse (\<Sum>y\<leftarrow>xs. exp y))"
    by (simp add: divide_inverse)
  also have "\<dots> = (\<Sum>x\<leftarrow>xs. exp x) * inverse (\<Sum>y\<leftarrow>xs. exp y)"
    by (rule sum_list_mult_const)
  also have "\<dots> = 1"
    using sum_list_exp_pos[OF assms] by simp
  finally show ?thesis .
qed

lemma clip_or_normalize_cosine:
  "clip_or_normalize ''cosine'' row = map (\<lambda>x. Finite (max 0 x)) row"
  by (simp add: clip_or_normalize_def max_def)

lemma length_clip_or_normalize: "length (clip_or_normalize st row) = length row"
  by (simp add: clip_or_normalize_def Let_def)

text \<open>
  With an open session, a vector that \<open>predict_action_probabilities\<close> returns is
  computed from the last step's row of the first dialogue of the similarity tensor the
  session yields, and has that row's length. For the similarity type \<open>'cosine'\<close> it is
  the row with every negative entry replaced by zero; nothing is renormalized.
\<close>

lemma predict_last_step_row:
  assumes "session self = Some sess"
    and "predict_action_probabilities self tracker d = (logs, Inr r)"
  shows "\<exists>feed sim. sess (sim_op self) feed = Inr sim \<and> sim \<noteq> [] \<and> hd sim \<noteq> [] \<and>
           r = clip_or_normalize (similarity_type self) (last (hd sim)) \<and>
           length r = length (last (hd sim)) \<and>
           (similarity_type self = ''cosine'' \<longrightarrow>
              r = map (\<lambda>x. Finite (max 0 x)) (last (hd sim)))"
proof -
  from assms obtain feed sim row where
    run: "sess (sim_op self) feed = Inr sim" and
    row: "last_step_row sim = Inr row" and
    r: "r = clip_or_normalize (similarity_type self) row"
    by (auto simp: predict_action_probabilities_def Let_def
             split: sum.splits prod.splits)
  from row have sim: "sim \<noteq> []" "hd sim \<noteq> []" "row = last (hd sim)"
    by (auto simp: last_step_row_def split: list.splits if_splits)
  have len: "length r = length row"
    unfolding r by (rule length_clip_or_normalize)
  have cos: "similarity_type self = ''cosine'' \<Longrightarrow> r = map (\<lambda>x. Finite (max 0 x)) row"
    unfolding r by (simp add: clip_or_normalize_cosine)
  from run sim(1,2) r len cos show ?thesis
    unfolding sim(3) by blast
qed

text \<open>
  For \<open>'inner'\<close>, as long as no exponential, sum or quotient leaves the range of single
  precision, the vector is the row's exponentials over their sum, and sums to 1.
\<close>

lemma to_float32_in_range:
  "underflow_to < v \<Longrightarrow> v < overflow_from \<Longrightarrow> to_float32 v = Finite v"
  by (simp add: to_float32_def)

lemma underflow_to_pos: "0 < underflow_to"
  by (simp add: underflow_to_def)

lemma foldl_float_add_in_range:
  assumes "0 \<le> acc" "\<forall>v \<in> set vs. underflow_to < v" "acc + sum_list vs < overflow_from"
  shows "foldl float_add (Finite acc) (map Finite vs) = Finite (acc + sum_list vs)"
  using assms
proof (induction vs arbitrary: acc)
  case Nil
  then show ?case by simp
next
  case (Cons v vs)
  have nn: "0 \<le> sum_list vs"
    using Cons.prems(2) underflow_to_pos by (intro sum_list_nonneg) force
  have v: "underflow_to < v" using Cons.prems(2) by simp
  have "to_float32 (acc + v) = Finite (acc + v)"
    using Cons.prems(1,3) v nn by (intro to_float32_in_range) simp_all
  moreover have "foldl float_add (Finite (acc + v)) (map Finite vs) =
                   Finite (acc + v + sum_list vs)"
    using Cons.prems v underflow_to_pos by (intro Cons.IH) simp_all
  ultimately show ?case by (simp add: add.assoc)
qed

lemma clip_or_normalize_inner_in_range:
  assumes S: "(\<Sum>y\<leftarrow>row. exp y) < overflow_from"
    and E: "\<forall>x \<in> set row. underflow_to < exp x"
    and Q: "\<forall>x \<in> set row. underflow_to < exp x / (\<Sum>y\<leftarrow>row. exp y)"
  shows "clip_or_normalize ''inner'' row =
           map (\<lambda>x. Finite (exp x / (\<Sum>y\<leftarrow>row. exp y))) row"
    and "row \<noteq> [] \<Longrightarrow> (\<Sum>x\<leftarrow>row. exp x / (\<Sum>y\<leftarrow>row. exp y)) = 1"
proof -
  let ?S = "\<Sum>y\<leftarrow>row. exp y"
  have le: "exp x \<le> ?S" if "x \<in> set row" for x
    using that by (intro member_le_sum_list) auto
  have lt: "exp x < overflow_from" if "x \<in> set row" for x
    using le[OF that] S by simp
  have e: "map np_exp row = map Finite (map exp row)"
    using E lt by (simp add: np_exp_def to_float32_in_range)
  have s: "np_sum (map np_exp row) = Finite ?S"
    unfolding e np_sum_def
    using foldl_float_add_in_range[of 0 "map exp row"] E S by simp
  have one: "1 < overflow_from" by (simp add: overflow_from_def)
  have q: "float_div (Finite (exp x)) (Finite ?S) = Finite (exp x / ?S)" if "x \<in> set row" for x
  proof -
    from that have ne: "row \<noteq> []" by auto
    have pos: "0 < ?S" by (rule sum_list_exp_pos[OF ne])
    have "exp x / ?S \<le> 1" using le[OF that] pos by simp
    then have "exp x / ?S < overflow_from" using one by (rule le_less_trans)
    moreover have "underflow_to < exp x / ?S" using Q that by blast
    ultimately have "to_float32 (exp x / ?S) = Finite (exp x / ?S)"
      by (intro to_float32_in_range)
    with pos show ?thesis by simp
  qed
  have "clip_or_normalize ''inner'' row =
          map (\<lambda>x. float_div x (Finite ?S)) (map np_exp row)"
    by (simp add: clip_or_normalize_def Let_def s)
  also have "\<dots> = map (\<lambda>x. Finite (exp x / ?S)) row"
    unfolding e using q by (simp del: float_div.simps)
  finally show "clip_or_normalize ''inner'' row = map (\<lambda>x. Finite (exp x / ?S)) row" .
  show "(\<Sum>x\<leftarrow>row. exp x / ?S) = 1" if "row \<noteq> []"
    by (rule softmax_sums_to_one[OF that])
qed

lemma clip_or_normalize_inner_zeros:
  "clip_or_normalize ''inner'' [0, 0] = [Finite (1 / 2), Finite (1 / 2)]"
  by (simp add: clip_or_normalize_def np_exp_def np_sum_def to_float32_def overflow_from_def
        underflow_to_def Let_def)

lemma train_succeeds:
  assumes "similarity_type p0 = ''cosine'' \<or> similarity_type p0 = ''inner''"
    and "true_length data \<noteq> []"
  shows "\<exists>p. train p0 data d [] fitted = Inr p"
  using assms
  by (cases "attn_shift_range p0") (auto simp: train_def np_mean_def Let_def)

lemma example_untrained_similarity: "similarity_type example_untrained = ''cosine''"
  by (rule init_fields(11)[OF example_untrained_eq])

lemma example_untrained_featurizer: "featurizer example_untrained = example_featurizer"
  using init_fields(10)[OF example_untrained_eq] by simp

lemma example_cosine_eq:
  "train example_untrained example_data example_domain [] mixed_session = Inr example_cosine"
proof -
  have "\<exists>p. train example_untrained example_data example_domain [] mixed_session = Inr p"
    by (rule train_succeeds) (simp_all add: example_untrained_similarity example_data_def)
  then show ?thesis
    unfolding example_cosine_def by auto
qed

lemma train_encoded:
  "train p0 data d kwargs fitted = Inr p \<Longrightarrow>
     encoded_all_actions p = Some (create_encoded_all_actions (featurizer p) d)"
  by (auto simp: train_def Let_def split: sum.splits option.splits if_splits)

lemma example_cosine_predict:
  "predict_action_probabilities example_cosine () example_domain =
     ([], Inr [Finite 0, Finite (1 / 2)])"
proof -
  note t = train_Inr[OF example_cosine_eq]
  have st: "similarity_type example_cosine = ''cosine''"
    using t(4) example_untrained_similarity by auto
  have fz: "featurizer example_cosine = example_featurizer"
    using t(4) example_untrained_featurizer by auto
  note acts = train_encoded[OF example_cosine_eq]
  show ?thesis
    by (simp add: predict_action_probabilities_def t(1) st acts fz example_featurizer_def
        create_X_slots_def create_all_Y_d_def np_stack_def shape1_def mixed_session_def
        last_step_row_def clip_or_normalize_cosine Let_def)
qed

lemma exp_100_overflows: "overflow_from \<le> exp (100 :: real)"
proof -
  have "(5 / 2 :: real) \<le> exp 1"
    using exp_lower_Taylor_quadratic[of "1 :: real"] by simp
  then have "(5 / 2 :: real) ^ 100 \<le> exp 1 ^ 100"
    by (intro power_mono) simp_all
  also have "\<dots> = exp (100 :: real)"
    using exp_of_nat_mult[of 100 "1 :: real"] by simp
  finally have "(5 / 2 :: real) ^ 100 \<le> exp 100" .
  moreover have "overflow_from \<le> (5 / 2 :: real) ^ 100"
    by (simp add: overflow_from_def power_divide)
  ultimately show ?thesis by simp
qed

lemma clip_or_normalize_inner_overflow:
  "clip_or_normalize ''inner'' [100, 0] = [NaN, Finite 0]"
proof -
  have a: "np_exp 100 = PosInf"
    using exp_100_overflows by (simp add: np_exp_def to_float32_def)
  have b: "np_exp 0 = Finite 1"
    by (simp add: np_exp_def to_float32_def overflow_from_def underflow_to_def)
  show ?thesis
    by (simp add: clip_or_normalize_def np_sum_def a b Let_def)
qed

lemma example_large_eq:
  "train example_untrained example_data example_domain
              [Similarity_type ''inner''] large_session = Inr example_large"
  by (simp add: example_large_def train_def load_params_inner load_params_nil np_mean_def
       example_data_def Let_def)

text \<open>
  C5. The last step's row is the only one the function uses, and for \<open>'cosine'\<close> no
  entry of the result is negative, as claimed. For \<open>'inner'\<close> the claim is that of the
  code's own comment, \<open>normalize result to [0, 1] with softmax\<close>: a vector that sums
  to 1. The code takes the exponentials of the scores as they are, without first
  subtracting the largest, so a score of 100 overflows single precision: on the row
  \<open>[100, 0]\<close> the exponentials are infinity and 1, their sum is infinity, and the
  policy trained with \<open>similarity_type='inner'\<close> returns \<open>[NaN, 0]\<close>, which does not sum
  to 1.
\<close>

theorem predict_inner_overflow:
  "train example_untrained example_data example_domain
     [Similarity_type ''inner''] large_session = Inr example_large \<and>
   session example_large = Some large_session \<and>
   similarity_type example_large = ''inner'' \<and>
   large_session (sim_op example_large) [] = Inr [[[100, 0]]] \<and>
   predict_action_probabilities example_large () example_domain =
     ([], Inr [NaN, Finite 0])"
proof -
  note t = train_Inr[OF example_large_eq]
  have st: "similarity_type example_large = ''inner''"
    using t(4) by (auto simp: load_params_inner)
  have fz: "featurizer example_large = example_featurizer"
    using t(4) example_untrained_featurizer
    by (auto simp: load_params_inner load_params_nil)
  note acts = train_encoded[OF example_large_eq]
  have "predict_action_probabilities example_large () example_domain =
          ([], Inr [NaN, Finite 0])"
    by (simp add: predict_action_probabilities_def t(1) st acts fz example_featurizer_def
        create_X_slots_def create_all_Y_d_def np_stack_def shape1_def large_session_def
        last_step_row_def clip_or_normalize_inner_overflow Let_def)
  with example_large_eq t(1) st show ?thesis
    by (simp add: large_session_def)
qed

text \<open>
  C7. On a policy without a session, \<open>predict_action_probabilities\<close> raises nothing:
  it logs one error and returns \<open>domain.num_actions\<close> zeros. The witness runs it on a
  freshly constructed policy.
\<close>

theorem predict_untrained_zeros:
  assumes "session self = None"
  shows "predict_action_probabilities self tracker d =
           ([Error_no_trained_session], Inr (replicate (num_actions d) (Finite 0)))"
  using assms by (simp add: predict_action_probabilities_def)

theorem predict_untrained_zeros_witness:
  "session example_untrained = None \<and>
   predict_action_probabilities example_untrained () example_domain =
     ([Error_no_trained_session], Inr [Finite 0, Finite 0])"
proof -
  have s: "session example_untrained = None"
    by (rule init_fields(1)[OF example_untrained_eq])
  from predict_untrained_zeros[OF s, of "()" example_domain] s
  show ?thesis by (simp add: example_domain_def numeral_2_eq_2)
qed

section \<open>Persisting and loading a trained policy\<close>

lemma train_same:
  assumes "train p0 data d kwargs fitted = Inr p"
  shows "featurizer p = featurizer p0"
  using assms train_Inr(4)[OF assms]
  by (auto simp: same_instances_def dest!: load_params_same split: if_splits)

text \<open>
  C10. Whatever the directory holds, a policy that \<open>load\<close> returns has every
  hyperparameter at its value in \<open>defaults\<close>: the constructor calls \<open>_load_params\<close> with
  no keyword. What \<open>persist\<close> writes does not depend on the hyperparameters: reloading
  them with any keywords before persisting leaves the same files. So a policy trained
  with overrides, persisted and loaded answers as the trained policy would with
  \<open>similarity_type\<close> set back to \<open>'cosine'\<close>; the witness is a policy trained with
  \<open>similarity_type='inner'\<close>.
\<close>

theorem load_carries_default_configuration:
  assumes "load tf std path (fs :: 'tr filesystem) = Inr q"
  shows
   "(num_hidden_layers_a q, hidden_layer_size_a q, num_hidden_layers_b q,
     hidden_layer_size_b q, rnn_size q, batch_size q, epochs q) = (0, [], 0, [], 32, 16, 1) \<and>
    (embed_dim q, mu_pos q, mu_neg q, similarity_type q, num_neg q, use_max_sim_neg q) =
      (20, 0.8, - 0.2, ''cosine'', 20, True) \<and>
    (C2 q, C_emb q, droprate q) =
      (0.001, 0.8, \<lparr>dr_a = 0, dr_b = 0, dr_slt = 0, dr_rnn = 0.1, dr_out = 0.1\<rparr>) \<and>
    (score_noise q, use_attention q, attn_shift_range q) = (0, True, None) \<and>
    (calc_acc_ones_in_epochs q, calc_acc_on_num_examples q) = (50, 100) \<and>
    (\<forall>kwargs (p :: 'tr policy) p2 fs0 pth.
       load_params kwargs p = Inr p2 \<longrightarrow>
       map_sum id snd (snd (persist p2 pth fs0)) = map_sum id snd (snd (persist p pth fs0))) \<and>
    (\<forall>p0 data d kwargs fitted p logs p' fs0 tracker d'.
       train p0 data d kwargs fitted = Inr p \<longrightarrow>
       persist p path fs0 = (logs, Inr (p', fs)) \<longrightarrow>
       predict_action_probabilities q tracker d' =
       predict_action_probabilities (p\<lparr>similarity_type := ''cosine''\<rparr>) tracker d')"
proof -
  from load_Inr_init[OF assms] obtain fz0 acts s g a b c bp so al
    where I: "init tf std fz0 acts s g a b c bp so al = Inr q" by blast
  note D = init_defaults[OF I]
  have P: "map_sum id snd (snd (persist p2 pth fs0)) = map_sum id snd (snd (persist p pth fs0))"
    if "load_params kwargs p = Inr p2" for kwargs and p p2 :: "'tr policy" and fs0 pth
    using load_params_same[OF that]
    by (intro persist_fs_cong) (simp_all add: same_instances_def)
  have R: "predict_action_probabilities q tracker d' =
           predict_action_probabilities (p\<lparr>similarity_type := ''cosine''\<rparr>) tracker d'"
    if T: "train p0 data d kwargs fitted = Inr p"
      and W: "persist p path fs0 = (logs, Inr (p', fs))"
    for p0 data d kwargs fitted p logs p' fs0 tracker d'
  proof -
    have S: "session p = Some fitted" by (rule train_Inr(1)[OF T])
    from roundtrip[OF W S assms] show ?thesis
      by (intro predict_cong) simp_all
  qed
  from D P R show ?thesis by blast
qed


lemma example_inner_session: "session example_inner = Some zero_session"
  by (rule train_Inr(1)[OF example_inner_eq])

lemma example_inner_similarity: "similarity_type example_inner = ''inner''"
  using train_Inr(4)[OF example_inner_eq]
  by (auto simp: load_params_inner)

lemma example_inner_featurizer: "featurizer example_inner = example_featurizer"
  using train_same[OF example_inner_eq] example_untrained_featurizer by simp

lemma example_inner_persist:
  "\<exists>p'. persist example_inner ''model'' Map.empty = ([], Inr (p', example_inner_fs))"
proof -
  from train_Inr(2,3)[OF example_inner_eq] obtain g hs where
    "graph example_inner = Some g" "alignment_history example_inner = Some hs" by blast
  from persist_ok[OF example_inner_session this, of "''model''" Map.empty]
  show ?thesis unfolding example_inner_fs_def by auto
qed

lemma example_inner_load:
  "load True example_featurizer ''model'' example_inner_fs = Inr example_inner_loaded"
proof -
  from example_inner_persist obtain p' where
    P: "persist example_inner ''model'' Map.empty = ([], Inr (p', example_inner_fs))" by blast
  have "is_full_dialogue (featurizer example_inner)"
    by (simp add: example_inner_featurizer example_featurizer_def)
  from roundtrip_loads[OF P example_inner_session this, of example_featurizer]
  show ?thesis unfolding example_inner_loaded_def by auto
qed

lemma predict_example_inner:
  "predict_action_probabilities example_inner () example_domain =
     ([], Inr [Finite (1 / 2), Finite (1 / 2)])"
  by (simp add: predict_action_probabilities_def example_inner_session
        example_inner_similarity train_encoded[OF example_inner_eq]
        example_inner_featurizer example_featurizer_def
        create_X_slots_def create_all_Y_d_def np_stack_def shape1_def zero_session_def
        last_step_row_def clip_or_normalize_inner_zeros Let_def)

lemma predict_example_inner_as_cosine:
  "predict_action_probabilities (example_inner\<lparr>similarity_type := ''cosine''\<rparr>) ()
     example_domain = ([], Inr [Finite 0, Finite 0])"
  by (simp add: predict_action_probabilities_def example_inner_session
        train_encoded[OF example_inner_eq]
        example_inner_featurizer example_featurizer_def
        create_X_slots_def create_all_Y_d_def np_stack_def shape1_def zero_session_def
        last_step_row_def clip_or_normalize_cosine Let_def)

theorem load_carries_default_configuration_witness:
  "load True example_featurizer ''model'' example_inner_fs = Inr example_inner_loaded \<and>
   similarity_type example_inner = ''inner'' \<and>
   similarity_type example_inner_loaded = ''cosine'' \<and>
   mu_pos example_inner_loaded = 0.8 \<and>
   num_neg example_inner_loaded = 20 \<and>
   predict_action_probabilities example_inner_loaded () example_domain =
     ([], Inr [Finite 0, Finite 0])"
proof -
  from example_inner_persist obtain p' where
    P: "persist example_inner ''model'' Map.empty = ([], Inr (p', example_inner_fs))" by blast
  note C = load_carries_default_configuration[OF example_inner_load]
  from C have "similarity_type example_inner_loaded = ''cosine''"
    "mu_pos example_inner_loaded = 0.8" "num_neg example_inner_loaded = 20"
    by simp_all
  moreover from C example_inner_eq P
  have "predict_action_probabilities example_inner_loaded () example_domain =
        predict_action_probabilities (example_inner\<lparr>similarity_type := ''cosine''\<rparr>) ()
          example_domain"
    by blast
  ultimately show ?thesis
    using example_inner_load example_inner_similarity predict_example_inner_as_cosine
    by simp
qed

text \<open>
  C9, as amended. For a trained policy whose featurizer is a full-dialogue featurizer,
  \<open>persist\<close> and then \<open>load\<close> on the same path both succeed, and the loaded policy
  predicts, for every tracker, what the original predicts with \<open>similarity_type\<close> set to
  \<open>'cosine'\<close>. The scores are therefore identical when the original's similarity type is
  \<open>'cosine'\<close>, the default. That a restored session computes what the saved one did is
  the checkpoint's contract and part of the model of the directory.
\<close>

theorem persist_load_roundtrip:
  assumes T: "train p0 data d kwargs fitted = Inr p"
    and F: "is_full_dialogue (featurizer p)"
  shows "\<exists>p' fs' q.
           persist p path fs = ([], Inr (p', fs')) \<and>
           load True std path fs' = Inr q \<and>
           (\<forall>tracker d'.
              predict_action_probabilities q tracker d' =
              predict_action_probabilities (p\<lparr>similarity_type := ''cosine''\<rparr>) tracker d') \<and>
           (similarity_type p = ''cosine'' \<longrightarrow>
              (\<forall>tracker d'.
                 predict_action_probabilities q tracker d' =
                 predict_action_probabilities p tracker d'))"
proof -
  have S: "session p = Some fitted" by (rule train_Inr(1)[OF T])
  from train_Inr(2,3)[OF T] obtain g hs where
    "graph p = Some g" "alignment_history p = Some hs" by blast
  from persist_ok[OF S this, of path fs] obtain p' fs' where
    P: "persist p path fs = ([], Inr (p', fs'))" by blast
  from roundtrip_loads[OF P S F, of std] obtain q where
    L: "load True std path fs' = Inr q" by blast
  note R = roundtrip[OF P S L]
  have A: "predict_action_probabilities q tracker d' =
           predict_action_probabilities (p\<lparr>similarity_type := ''cosine''\<rparr>) tracker d'"
    for tracker d'
    using R by (intro predict_cong) simp_all
  have B: "predict_action_probabilities q tracker d' =
           predict_action_probabilities p tracker d'"
    if "similarity_type p = ''cosine''" for tracker d'
    using R that by (intro predict_cong) simp_all
  from P L A B show ?thesis by blast
qed

theorem persist_load_roundtrip_witness:
  "train example_untrained example_data example_domain [] mixed_session = Inr example_cosine \<and>
   is_full_dialogue (featurizer example_cosine) \<and>
   similarity_type example_cosine = ''cosine'' \<and>
   (\<exists>p' fs' q.
      persist example_cosine ''model'' Map.empty = ([], Inr (p', fs')) \<and>
      load True example_featurizer ''model'' fs' = Inr q \<and>
      predict_action_probabilities q () example_domain =
        ([], Inr [Finite 0, Finite (1 / 2)]) \<and>
      predict_action_probabilities example_cosine () example_domain =
        ([], Inr [Finite 0, Finite (1 / 2)]))"
proof -
  have F: "is_full_dialogue (featurizer example_cosine)"
    using train_same[OF example_cosine_eq] example_untrained_featurizer
    by (simp add: example_featurizer_def)
  have st: "similarity_type example_cosine = ''cosine''"
    using train_Inr(4)[OF example_cosine_eq] example_untrained_similarity by auto
  from persist_load_roundtrip[OF example_cosine_eq F, of "''model''" Map.empty example_featurizer]
  obtain p' fs' q where
    "persist example_cosine ''model'' Map.empty = ([], Inr (p', fs'))"
    "load True example_featurizer ''model'' fs' = Inr q"
    "similarity_type example_cosine = ''cosine'' \<longrightarrow>
       (\<forall>tracker d'. predict_action_probabilities q tracker d' =
                      predict_action_probabilities example_cosine tracker d')"
    by blast
  with st example_cosine_predict example_cosine_eq F show ?thesis
    by auto
qed

text \<open>
  C9 as stated fails for a policy trained with \<open>similarity_type='inner'\<close>: on a
  similarity row of two zeros the trained policy answers \<open>[1/2, 1/2]\<close>, the loaded
  one \<open>[0, 0]\<close>.
\<close>

theorem persist_load_roundtrip_inner_counterexample:
  "train example_untrained example_data example_domain [Similarity_type ''inner'']
     zero_session = Inr example_inner \<and>
   snd (persist example_inner ''model'' Map.empty) =
     Inr (example_inner_persisted, example_inner_fs) \<and>
   load True example_featurizer ''model'' example_inner_fs = Inr example_inner_loaded \<and>
   predict_action_probabilities example_inner () example_domain =
     ([], Inr [Finite (1 / 2), Finite (1 / 2)]) \<and>
   predict_action_probabilities example_inner_loaded () example_domain =
     ([], Inr [Finite 0, Finite 0])"
proof -
  from example_inner_persist obtain p' where
    P: "persist example_inner ''model'' Map.empty = ([], Inr (p', example_inner_fs))" by blast
  then have P': "snd (persist example_inner ''model'' Map.empty) =
     Inr (example_inner_persisted, example_inner_fs)"
    by (simp add: example_inner_persisted_def)
  from roundtrip[OF P example_inner_session example_inner_load]
  have "predict_action_probabilities example_inner_loaded () example_domain =
        predict_action_probabilities (example_inner\<lparr>similarity_type := ''cosine''\<rparr>) ()
          example_domain"
    by (intro predict_cong) simp_all
  with P' example_inner_eq example_inner_load predict_example_inner
    predict_example_inner_as_cosine
  show ?thesis by simp
qed

section \<open>No-scale dropout\<close>







section \<open>Chrono cell\<close>

lemma chrono_argument_positive:
  assumes "1 \<le> ct" "0 \<le> u" "u < 1"
  shows "0 < (ct - 2) * u + (1::real)"
proof -
  have "(- 1) * u \<le> (ct - 2) * u"
    by (rule mult_right_mono) (use assms in simp_all)
  then show ?thesis using assms by linarith
qed

text \<open>
  C4. For the cell that \<open>_create_rnn_cell\<close> builds (no layer normalization) from \<open>n\<close>
  draws, on a state of width \<open>n\<close> and a linear output of width \<open>4 n\<close> split into
  \<open>i, j, f, o\<close>: \<open>call\<close> returns, and at every unit \<open>k\<close> the new cell state is
  \<open>c * sigmoid (f + bias_f) + g * sigmoid (i + bias_i)\<close> and the new hidden state
  \<open>tanh new_c * sigmoid o\<close>, where \<open>g\<close> is \<open>tanh j\<close> after the recurrent dropout,
  \<open>bias_f = log ((characteristic_time - 2) * u + 1)\<close> for the draw \<open>u\<close> of that unit, made
  once when the cell is created, and \<open>bias_i = - bias_f\<close>. The argument of the logarithm
  is positive when the characteristic time is at least 1 and the draw lies in \<open>[0, 1)\<close>.
\<close>

theorem chrono_cell_transition:
  assumes cell: "create_rnn_cell self draws lin nrm = Inr cell"
    and ct: "characteristic_time self = Some ct"
    and n: "length draws = n" "length (lin (inputs @ h)) = 4 * n" "length c = n"
           "length us = n" "k < n"
  shows "\<exists>new_c new_h.
           call cell training us inputs (c, h) = Inr (new_h, (new_c, new_h)) \<and>
           (let concat = lin (inputs @ h);
                i = concat ! k; j = concat ! (n + k);
                f = concat ! (2 * n + k); o1 = concat ! (3 * n + k);
                keep = 1 - dr_rnn (droprate self) * (if training then 1 else 0);
                g = tanh j / keep * of_int \<lfloor>keep + us ! k\<rfloor>;
                bias_f = cell_forget_bias cell ! k;
                bias_i = cell_input_bias cell ! k
            in new_c ! k = c ! k * sigmoid (f + bias_f) + g * sigmoid (i + bias_i) \<and>
               new_h ! k = tanh (new_c ! k) * sigmoid o1 \<and>
               bias_f = ln ((ct - 2) * draws ! k + 1) \<and>
               bias_i = - bias_f \<and>
               (1 \<le> ct \<and> 0 \<le> draws ! k \<and> draws ! k < 1 \<longrightarrow> 0 < (ct - 2) * draws ! k + 1))"
proof -
  from cell ct have C: "cell = \<lparr>cell_num_units = rnn_size self,
                  cell_forget_bias = map (\<lambda>u. ln ((ct - 2) * u + 1)) draws,
                  cell_input_bias = map uminus (map (\<lambda>u. ln ((ct - 2) * u + 1)) draws),
                  cell_layer_norm = False,
                  cell_keep_prob = TensorOf (\<lambda>training.
                     1 - dr_rnn (droprate self) * (if training then 1 else 0)),
                  cell_linear = lin,
                  cell_norm = nrm\<rparr>"
    by (auto simp: create_rnn_cell_def Let_def)
  have d: "length (lin (inputs @ h)) div 4 = n" "length (lin (inputs @ h)) mod 4 = 0"
    using n(2) by simp_all
  show ?thesis
    using n chrono_argument_positive[of ct "draws ! k"]
    unfolding C call_def
    by (simp add: Let_def d tf_nn_dropout_def add.commute[of n k] algebra_simps)
qed

lemma example_cell_policy_time: "characteristic_time example_cell_policy = Some 3"
  by (simp add: example_cell_policy_def)

theorem chrono_cell_transition_witness:
  "create_rnn_cell example_cell_policy [1 / 2] (\<lambda>args. [0, 0, 0, 0]) (\<lambda>scope v. v) =
     Inr \<lparr>cell_num_units = 1, cell_forget_bias = [ln (3 / 2)],
           cell_input_bias = [- ln (3 / 2)], cell_layer_norm = False,
           cell_keep_prob = cell_keep_prob
             (projr (create_rnn_cell example_cell_policy [1 / 2] (\<lambda>args. [0, 0, 0, 0])
                (\<lambda>scope v. v))),
           cell_linear = (\<lambda>args. [0, 0, 0, 0]), cell_norm = (\<lambda>scope v. v)\<rparr> \<and>
   (\<exists>new_c new_h.
      call (projr (create_rnn_cell example_cell_policy [1 / 2] (\<lambda>args. [0, 0, 0, 0])
                    (\<lambda>scope v. v)))
           False [0] [] ([1], [0]) = Inr (new_h, (new_c, new_h)) \<and>
      new_c ! 0 = 3 / 5 \<and> new_h ! 0 = tanh (3 / 5) / 2)"
proof -
  let ?lin = "\<lambda>args :: real list. [0, 0, 0, 0 :: real]"
  let ?nrm = "\<lambda>(scope :: string) (v :: real list). v"
  let ?cell = "projr (create_rnn_cell example_cell_policy [1 / 2] ?lin ?nrm)"
  have rs: "rnn_size example_cell_policy = 1"
    by (simp add: example_cell_policy_def)
  have c: "create_rnn_cell example_cell_policy [1 / 2] ?lin ?nrm = Inr ?cell"
    by (simp add: create_rnn_cell_def example_cell_policy_time Let_def)
  have s: "sigmoid (ln (3 / 2)) = 3 / 5" "sigmoid (- ln (3 / 2)) = 2 / 5" "sigmoid 0 = 1 / 2"
    by (simp_all add: sigmoid_def exp_minus)
  from chrono_cell_transition[OF c example_cell_policy_time, where n = 1 and inputs = "[]"
      and h = "[0]" and c = "[1]" and us = "[0]" and k = 0 and training = False]
  obtain new_c new_h where
    r: "call ?cell False [0] [] ([1], [0]) = Inr (new_h, (new_c, new_h))"
       "new_c ! 0 = 1 * sigmoid (0 + cell_forget_bias ?cell ! 0) +
                    (tanh 0 / 1 * of_int \<lfloor>1 + (0::real)\<rfloor>) * sigmoid (0 + cell_input_bias ?cell ! 0)"
       "new_h ! 0 = tanh (new_c ! 0) * sigmoid 0"
       "cell_forget_bias ?cell ! 0 = ln ((3 - 2) * (1 / 2) + 1)"
       "cell_input_bias ?cell ! 0 = - cell_forget_bias ?cell ! 0"
    by (auto simp: Let_def)
  have fb: "cell_forget_bias ?cell = [ln (3 / 2)]" "cell_input_bias ?cell = [- ln (3 / 2)]"
    by (simp_all add: create_rnn_cell_def example_cell_policy_time Let_def)
  have parts: "cell_num_units ?cell = 1" "cell_layer_norm ?cell = False"
    "cell_linear ?cell = ?lin" "cell_norm ?cell = ?nrm"
    by (simp_all add: create_rnn_cell_def example_cell_policy_time Let_def rs)
  have eq: "?cell = \<lparr>cell_num_units = 1, cell_forget_bias = [ln (3 / 2)],
           cell_input_bias = [- ln (3 / 2)], cell_layer_norm = False,
           cell_keep_prob = cell_keep_prob ?cell,
           cell_linear = ?lin, cell_norm = ?nrm\<rparr>"
    using fb parts by (cases ?cell) simp
  have nc: "new_c ! 0 = 3 / 5" using r(2) fb s by simp
  have nh: "new_h ! 0 = tanh (3 / 5) / 2" using r(3) nc s by simp
  from c eq r(1) nc nh show ?thesis by metis
qed

section \<open>The negative sampler\<close>

lemma choice_ok:
  assumes "a \<noteq> []" "0 \<le> k"
  shows "\<exists>xs. choice a k stream pos = Inr (xs, pos + nat k) \<and>
              length xs = nat k \<and> set xs \<subseteq> set a"
  using assms by (auto simp: choice_def)

lemma sample_step_ok:
  assumes "2 \<le> n" "0 \<le> k"
  shows "\<exists>negs. sample_step n k intent_id stream pos = Inr (negs, pos + nat k) \<and>
           length negs = nat k \<and> (\<forall>i \<in> set negs. i < n \<and> i \<noteq> intent_id)"
proof -
  let ?a = "filter (\<lambda>i. i \<noteq> intent_id) [0..<n]"
  have "\<exists>i \<in> set [0..<n]. i \<noteq> intent_id"
  proof (cases "intent_id = 0")
    case True
    with assms(1) show ?thesis by (intro bexI[of _ 1]) simp_all
  next
    case False
    with assms(1) show ?thesis by (intro bexI[of _ 0]) simp_all
  qed
  then have "?a \<noteq> []" by (simp add: filter_empty_conv)
  from choice_ok[OF this assms(2), of stream pos] show ?thesis
    unfolding sample_step_def Let_def by auto
qed

lemma sample_dialogue_ok:
  assumes "2 \<le> n" "0 \<le> k"
  shows "\<exists>grid pos1. sample_dialogue n k ids stream pos = Inr (grid, pos1) \<and>
           list_all2 (\<lambda>intent_id negs. length negs = nat k \<and>
                        (\<forall>i \<in> set negs. i < n \<and> i \<noteq> intent_id)) ids grid"
proof (induction ids arbitrary: pos)
  case Nil
  then show ?case by simp
next
  case (Cons intent_id ids)
  from sample_step_ok[OF assms, of intent_id stream pos] obtain negs where
    s: "sample_step n k intent_id stream pos = Inr (negs, pos + nat k)"
       "length negs = nat k" "\<forall>i \<in> set negs. i < n \<and> i \<noteq> intent_id" by blast
  from Cons.IH[of "pos + nat k"] obtain grid pos1 where
    r: "sample_dialogue n k ids stream (pos + nat k) = Inr (grid, pos1)"
       "list_all2 (\<lambda>intent_id negs. length negs = nat k \<and>
                        (\<forall>i \<in> set negs. i < n \<and> i \<noteq> intent_id)) ids grid" by blast
  from s r show ?case by simp
qed

lemma sample_batch_ok:
  assumes "2 \<le> n" "0 \<le> k"
  shows "\<exists>grid pos1. sample_batch n k idss stream pos = Inr (grid, pos1) \<and>
           list_all2 (list_all2 (\<lambda>intent_id negs. length negs = nat k \<and>
                        (\<forall>i \<in> set negs. i < n \<and> i \<noteq> intent_id))) idss grid"
proof (induction idss arbitrary: pos)
  case Nil
  then show ?case by simp
next
  case (Cons ids idss)
  from sample_dialogue_ok[OF assms, of ids stream pos] obtain negs pos0 where
    s: "sample_dialogue n k ids stream pos = Inr (negs, pos0)"
       "list_all2 (\<lambda>intent_id negs. length negs = nat k \<and>
                        (\<forall>i \<in> set negs. i < n \<and> i \<noteq> intent_id)) ids negs" by blast
  from Cons.IH[of pos0] obtain grid pos1 where
    r: "sample_batch n k idss stream pos0 = Inr (grid, pos1)"
       "list_all2 (list_all2 (\<lambda>intent_id negs. length negs = nat k \<and>
                        (\<forall>i \<in> set negs. i < n \<and> i \<noteq> intent_id))) idss grid" by blast
  from s r show ?case by simp
qed

lemma train_num_neg:
  assumes "train p0 data d kwargs fitted = Inr p"
  shows "\<exists>p1. (if kwargs \<noteq> [] then load_params kwargs p0 else Inr p0) = Inr p1 \<and>
              num_neg p = min (num_neg p1) (int (num_actions d) - 1)"
  using assms
  by (auto simp: train_def Let_def split: sum.splits option.splits if_splits)

text \<open>
  What the sampler does guarantee. After \<open>train\<close> has set \<open>num_neg\<close> to the smaller of
  its configured value and \<open>num_actions - 1\<close>, and with at least two actions and a
  configured \<open>num_neg\<close> that is not negative, it returns for every \<open>(dialogue, step)\<close> of
  the batch exactly \<open>num_neg\<close> indices, each an action index other than the ground truth
  of that step. Nothing here says that the indices of one step differ from each other.
\<close>

lemma negative_samples_draws:
  assumes T: "train p0 data d kwargs fitted = Inr self"
    and A: "length (create_encoded_all_actions (featurizer self) d) = num_actions d"
    and N: "2 \<le> num_actions d"
    and K: "0 \<le> num_neg self"
    and S: "length batch_pos_b \<le> length intent_ids"
           "\<forall>b < length batch_pos_b. shape1 batch_pos_b \<le> length (intent_ids ! b)"
  shows "\<exists>negs pos1.
           negative_samples self batch_pos_b intent_ids stream pos = Inr (negs, pos1) \<and>
           length negs = length batch_pos_b \<and>
           (\<forall>b < length batch_pos_b.
              length (negs ! b) = shape1 batch_pos_b \<and>
              (\<forall>h < shape1 batch_pos_b.
                 length (negs ! b ! h) = nat (num_neg self) \<and>
                 (\<forall>i \<in> set (negs ! b ! h). i < num_actions d \<and> i \<noteq> intent_ids ! b ! h))) \<and>
           num_neg self \<le> int (num_actions d) - 1 \<and>
           (\<exists>p1. (if kwargs \<noteq> [] then load_params kwargs p0 else Inr p0) = Inr p1 \<and>
                 num_neg self = min (num_neg p1) (int (num_actions d) - 1))"
proof -
  let ?B = "length batch_pos_b" and ?T = "shape1 batch_pos_b"
  let ?P = "\<lambda>intent_id negs. length negs = nat (num_neg self) \<and>
              (\<forall>i \<in> set negs. i < num_actions d \<and> i \<noteq> intent_id)"
  let ?ids = "map (\<lambda>b. map (\<lambda>h. intent_ids ! b ! h) [0..<?T]) [0..<?B]"
  from train_encoded[OF T] A obtain acts where
    acts: "encoded_all_actions self = Some acts" "length acts = num_actions d" by auto
  from sample_batch_ok[of "num_actions d" "num_neg self" ?ids stream pos] N K
  obtain grid pos1 where
    g: "sample_batch (num_actions d) (num_neg self) ?ids stream pos = Inr (grid, pos1)"
       "list_all2 (list_all2 ?P) ?ids grid" by blast
  have ok: "\<not> (length intent_ids < ?B \<or> (\<exists>ids \<in> set (take ?B intent_ids). length ids < ?T))"
    using S by (force simp: in_set_conv_nth)
  have run: "negative_samples self batch_pos_b intent_ids stream pos = Inr (grid, pos1)"
    using K acts ok g(1) by (simp add: negative_samples_def Let_def)
  have len: "length grid = ?B"
    using list_all2_lengthD[OF g(2)] by simp
  have rows: "length (grid ! b) = ?T \<and>
              (\<forall>h < ?T. length (grid ! b ! h) = nat (num_neg self) \<and>
                 (\<forall>i \<in> set (grid ! b ! h). i < num_actions d \<and> i \<noteq> intent_ids ! b ! h))"
    if b: "b < ?B" for b
  proof -
    from g(2) b have r: "list_all2 ?P (?ids ! b) (grid ! b)"
      by (simp add: list_all2_conv_all_nth)
    then have l: "length (grid ! b) = ?T"
      using b by (auto dest: list_all2_lengthD)
    have "?P (?ids ! b ! h) (grid ! b ! h)" if "h < ?T" for h
      using r that b by (simp add: list_all2_conv_all_nth)
    with l b show ?thesis by simp
  qed
  from train_num_neg[OF T] obtain p1 where
    p1: "(if kwargs \<noteq> [] then load_params kwargs p0 else Inr p0) = Inr p1"
        "num_neg self = min (num_neg p1) (int (num_actions d) - 1)" by blast
  then have le: "num_neg self \<le> int (num_actions d) - 1" by simp
  from run len rows le p1 show ?thesis by blast
qed


lemma three_actions_untrained:
  "init True three_actions_featurizer None None None None
     PyNone PyNone PyNone PyNone PyNone None =
   Inr (projr (init True three_actions_featurizer None None None None
                 PyNone PyNone PyNone PyNone PyNone None))"
  by (simp add: init_def load_params_nil three_actions_featurizer_def example_featurizer_def)

lemma three_actions_train:
  "train (projr (init True three_actions_featurizer None None None None
                   PyNone PyNone PyNone PyNone PyNone None))
     example_data three_actions_domain [] zero_session = Inr three_actions_policy"
proof -
  have "\<exists>p. train (projr (init True three_actions_featurizer None None None None
                   PyNone PyNone PyNone PyNone PyNone None))
     example_data three_actions_domain [] zero_session = Inr p"
    by (rule train_succeeds)
       (simp_all add: init_fields(11)[OF three_actions_untrained] example_data_def)
  then show ?thesis unfolding three_actions_policy_def by auto
qed

lemma three_actions_featurizer_of: "featurizer three_actions_policy = three_actions_featurizer"
  using train_same[OF three_actions_train] init_fields(10)[OF three_actions_untrained]
  by simp

lemma three_actions_encoded:
  "encoded_all_actions three_actions_policy = Some [[1, 0, 0], [0, 1, 0], [0, 0, 1]]"
  using train_encoded[OF three_actions_train]
  by (simp add: three_actions_featurizer_of three_actions_featurizer_def)

lemma three_actions_num_neg: "num_neg three_actions_policy = 2"
  using train_num_neg[OF three_actions_train] init_defaults(2)[OF three_actions_untrained]
  by (simp add: three_actions_domain_def)

lemma upt_3: "[0..<3] = [0, 1, 2]" "[0..<2] = [0, 1]" "[0..<Suc 0] = [0]"
  by (simp_all add: upt_rec numeral_3_eq_3 numeral_2_eq_2)

lemma three_actions_constant:
  "negative_samples three_actions_policy [[[1, 0, 0]]] [[0]] constant_stream 0 =
     Inr ([[[1, 1]]], 2)"
  by (simp add: negative_samples_def three_actions_num_neg three_actions_encoded shape1_def
        sample_step_def choice_def constant_stream_def upt_3 Let_def)

lemma three_actions_counting:
  "negative_samples three_actions_policy [[[1, 0, 0]]] [[0]] counting_stream 0 =
     Inr ([[[1, 2]]], 2)"
  by (simp add: negative_samples_def three_actions_num_neg three_actions_encoded shape1_def
        sample_step_def choice_def counting_stream_def upt_3 Let_def)

text \<open>
  C2. The claim has the negatives of a step drawn without replacement, and \<open>train\<close>
  caps \<open>num_neg\<close> at \<open>num_actions - 1\<close>, the size of the pool, which is what such a draw
  needs. \<open>_create_batch_b\<close> however calls \<open>np.random.choice\<close> without \<open>replace=False\<close>
  (\<open>continue_training\<close> does pass it), so every draw is made from the whole pool. With
  three actions, ground truth 0 and \<open>num_neg\<close> capped from 20 to 2, a generator that
  yields the same position twice makes the sampler return the index 1 twice: one
  distinct negative where the claim has \<open>min(num_neg, num_actions - 1) = 2\<close>.
\<close>

theorem negative_samples_repeated_draw:
  "train (projr (init True three_actions_featurizer None None None None
                   PyNone PyNone PyNone PyNone PyNone None))
     example_data three_actions_domain [] zero_session = Inr three_actions_policy \<and>
   num_neg three_actions_policy = 2 \<and>
   num_actions three_actions_domain = 3 \<and>
   negative_samples three_actions_policy [[[1, 0, 0]]] [[0]] constant_stream 0 =
     Inr ([[[1, 1]]], 2) \<and>
   \<not> distinct [1, 1 :: nat] \<and>
   card (set [1, 1 :: nat]) = 1 \<and>
   nat (min (num_neg three_actions_policy) (int (num_actions three_actions_domain) - 1)) = 2"
  using three_actions_train three_actions_num_neg three_actions_constant
  by (simp add: three_actions_domain_def)

section \<open>The training loss\<close>

lemma reduce_max_Max:
  assumes "xs \<noteq> []"
  shows "reduce_max xs = Some (Max (set xs))"
proof (cases xs)
  case Nil
  with assms show ?thesis by simp
next
  case (Cons a rest)
  have "fold max rest a = Max (set (a # rest))"
    by (rule Max.set_eq_fold[symmetric])
  with Cons show ?thesis by (simp add: reduce_max_def)
qed

lemma sum_list_nth_lessThan: "sum_list xs = (\<Sum>i < length xs. xs ! (i::nat) :: real)"
  by (simp add: sum_list_sum_nth atLeast0LessThan)

lemma loss_max_sim_neg_eq:
  assumes "2 \<le> length row"
  shows "loss_max_sim_neg self row m =
           (hinge (mu_pos self - row ! 0) + hinge (mu_neg self + Max (set (drop 1 row)))) * m"
proof -
  have "drop 1 row \<noteq> []" using assms by simp
  from reduce_max_Max[OF this] show ?thesis
    by (simp add: loss_max_sim_neg_def hinge_def maximum0_def plus_scalar_def)
qed


lemma map2_upt:
  assumes "length xs = n" "length ys = n"
  shows "map2 f xs ys = map (\<lambda>i. f (xs ! i) (ys ! i)) [0..<n]"
  using assms by (intro nth_equalityI) simp_all

lemma sum_list_map_upt: "sum_list (map f [0..<n]) = (\<Sum>i < n. f i :: real)"
  by (simp add: interv_sum_list_conv_sum_set_nat atLeast0LessThan)

lemma nth_map_upt0: "i < n \<Longrightarrow> map f [0..<n] ! i = f i"
  by simp

lemma loss_act_eq:
  assumes "row \<noteq> []"
  shows "maximum0 (reduce_max row) = hinge (Max (set row))"
  using reduce_max_Max[OF assms] by (simp add: maximum0_def hinge_def)

lemma loss_all_neg_eq:
  assumes "length row = nat (num_neg self) + 1" "2 \<le> length row"
  shows "loss_all_neg self row m =
           (hinge (mu_pos self - row ! 0) +
            (\<Sum>s\<leftarrow>drop 1 row. hinge (mu_neg self + s))) * m"
proof -
  from assms(2) obtain r0 rest where row: "row = r0 # rest"
    by (cases row) auto
  from assms row have n: "length rest = nat (num_neg self)" and ne: "rest \<noteq> []"
    by auto
  have f: "map2 (*) (replicate (length rest) 1) rest = rest"
    by (intro nth_equalityI) simp_all
  have m: "map2 (+) (replicate (length rest) (mu_neg self)) rest =
           map (\<lambda>s. mu_neg self + s) rest"
    by (intro nth_equalityI) simp_all
  show ?thesis
    using ne by (simp add: loss_all_neg_def row n[symmetric] broadcast_add_def f m hinge_def
                   o_def Let_def)
qed

lemma loss_step_eq:
  assumes "2 \<le> length row"
    and "\<not> use_max_sim_neg self \<Longrightarrow> length row = nat (num_neg self) + 1"
  shows "(if use_max_sim_neg self then loss_max_sim_neg self else loss_all_neg self) row m =
           (hinge (mu_pos self - row ! 0) +
            (if use_max_sim_neg self then hinge (mu_neg self + Max (set (drop 1 row)))
             else (\<Sum>s\<leftarrow>drop 1 row. hinge (mu_neg self + s)))) * m"
proof (cases "use_max_sim_neg self")
  case True
  then show ?thesis by (simp add: loss_max_sim_neg_eq[OF assms(1)])
next
  case False
  from loss_all_neg_eq[OF assms(2)[OF False] assms(1), of m] False
  show ?thesis by simp
qed

lemma times_mask_nth:
  assumes "b < length (times_mask x mask0)" "t < length (times_mask x mask0 ! b)"
  shows "times_mask x mask0 ! b ! t = map (\<lambda>s. s * mask0 ! b ! t) (x ! b ! t)"
  using assms by (simp add: times_mask_def)

lemma tf_sim_masked:
  assumes "tf_sim self emb_dial emb_act mask0 = Inr (sim, sim_act)"
    and "b < length sim_act" "t < length (sim_act ! b)" "mask0 ! b ! t = 0"
  shows "\<forall>s \<in> set (sim_act ! b ! t). s = 0"
proof -
  from assms(1) obtain x where "sim_act = times_mask x mask0"
    by (auto simp: tf_sim_def Let_def split: if_splits)
  with times_mask_nth[of b x mask0 t] assms(2-4) show ?thesis by auto
qed

text \<open>
  C3, as amended. On well-shaped tensors with at least one negative per step, at least
  one dialogue and a valid step in every dialogue, the loss is: per step
  \<open>(hinge (mu_pos - sim_pos) + N) * mask + C_emb * hinge (max sim_act)\<close>, where \<open>N\<close> is
  \<open>hinge (mu_neg + max sim_neg)\<close> with \<open>use_max_sim_neg\<close> and the sum of
  \<open>hinge (mu_neg + s)\<close> over the negatives \<open>s\<close> without it; summed over the steps of a
  dialogue, divided by the sum of its mask, averaged over the dialogues, plus the
  regularization loss. The penalty on \<open>sim_act\<close> passes through a hinge in both
  variants: a negative maximum contributes nothing. It is not multiplied by the mask
  in \<open>_tf_loss\<close>; \<open>_tf_sim\<close> has multiplied \<open>sim_act\<close> by the mask, so the whole summand
  of a step whose mask is 0 vanishes.
\<close>

theorem tf_loss_formula:
  assumes S: "loss_shapes self sim sim_act mask0"
    and K: "\<forall>b < length mask0. \<forall>t < length (mask0 ! b).
              2 \<le> length (sim ! b ! t) \<and> sim_act ! b ! t \<noteq> [] \<and>
              (\<not> use_max_sim_neg self \<longrightarrow> length (sim ! b ! t) = nat (num_neg self) + 1)"
    and V: "mask0 \<noteq> []" "\<forall>b < length mask0. (\<Sum>t < length (mask0 ! b). mask0 ! b ! t) \<noteq> 0"
  shows "tf_loss self sim sim_act mask0 reg =
     Inr (Some (
       (\<Sum>b < length mask0.
          (\<Sum>t < length (mask0 ! b).
             (hinge (mu_pos self - sim ! b ! t ! 0) +
              (if use_max_sim_neg self
               then hinge (mu_neg self + Max (set (drop 1 (sim ! b ! t))))
               else (\<Sum>s\<leftarrow>drop 1 (sim ! b ! t). hinge (mu_neg self + s)))) * mask0 ! b ! t +
             C_emb self * hinge (Max (set (sim_act ! b ! t))))
          / (\<Sum>t < length (mask0 ! b). mask0 ! b ! t))
       / real (length mask0) + reg)) \<and>
   (\<forall>emb_dial emb_act b t.
      tf_sim self emb_dial emb_act mask0 = Inr (sim, sim_act) \<longrightarrow>
      b < length mask0 \<longrightarrow> t < length (mask0 ! b) \<longrightarrow> mask0 ! b ! t = 0 \<longrightarrow>
      (hinge (mu_pos self - sim ! b ! t ! 0) +
       (if use_max_sim_neg self
        then hinge (mu_neg self + Max (set (drop 1 (sim ! b ! t))))
        else (\<Sum>s\<leftarrow>drop 1 (sim ! b ! t). hinge (mu_neg self + s)))) * mask0 ! b ! t +
      C_emb self * hinge (Max (set (sim_act ! b ! t))) = 0)"
proof -
  let ?B = "length mask0"
  let ?T = "\<lambda>b. length (mask0 ! b)"
  let ?step = "if use_max_sim_neg self then loss_max_sim_neg self else loss_all_neg self"
  let ?F = "\<lambda>b t. (hinge (mu_pos self - sim ! b ! t ! 0) +
              (if use_max_sim_neg self
               then hinge (mu_neg self + Max (set (drop 1 (sim ! b ! t))))
               else (\<Sum>s\<leftarrow>drop 1 (sim ! b ! t). hinge (mu_neg self + s)))) * mask0 ! b ! t +
             C_emb self * hinge (Max (set (sim_act ! b ! t)))"
  let ?G = "\<lambda>b. (\<Sum>t < ?T b. ?F b t) / (\<Sum>t < ?T b. mask0 ! b ! t)"
  from S have len: "length sim = ?B" "length sim_act = ?B"
    and rows: "\<And>b. b < ?B \<Longrightarrow> length (sim ! b) = ?T b"
              "\<And>b. b < ?B \<Longrightarrow> length (sim_act ! b) = ?T b"
    by (auto simp: loss_shapes_def list_all2_conv_all_nth)
  let ?loss0 = "map2 (map2 ?step) sim mask0"
  let ?loss_act = "map (map (\<lambda>row. maximum0 (reduce_max row))) sim_act"
  let ?loss1 = "map2 (map2 (\<lambda>l la. l + la * C_emb self)) ?loss0 ?loss_act"
  let ?loss2 = "map2 (\<lambda>l m. if sum_list m = 0 then None
                              else Some (sum_list l / sum_list m)) ?loss1 mask0"
  have l0: "?loss0 ! b = map (\<lambda>t. ?step (sim ! b ! t) (mask0 ! b ! t)) [0..<?T b]"
    if "b < ?B" for b
    using that len rows by (simp add: map2_upt[of _ "?T b"])
  have la: "?loss_act ! b = map (\<lambda>t. maximum0 (reduce_max (sim_act ! b ! t))) [0..<?T b]"
    if "b < ?B" for b
    using that len rows(2)[OF that] by (intro nth_equalityI) simp_all
  have l1: "?loss1 ! b = map (?F b) [0..<?T b]" if b: "b < ?B" for b
  proof -
    have "?loss1 ! b = map2 (\<lambda>l la. l + la * C_emb self) (?loss0 ! b) (?loss_act ! b)"
      using b len by simp
    also have "\<dots> = map (\<lambda>t. ?step (sim ! b ! t) (mask0 ! b ! t) +
                              maximum0 (reduce_max (sim_act ! b ! t)) * C_emb self) [0..<?T b]"
      unfolding l0[OF b] la[OF b] by (intro nth_equalityI) simp_all
    also have "\<dots> = map (?F b) [0..<?T b]"
    proof (intro map_cong refl)
      fix t assume "t \<in> set [0..<?T b]"
      then have t: "t < ?T b" by simp
      from K b t have k: "2 \<le> length (sim ! b ! t)" "sim_act ! b ! t \<noteq> []"
        "\<not> use_max_sim_neg self \<Longrightarrow> length (sim ! b ! t) = nat (num_neg self) + 1"
        by simp_all
      show "?step (sim ! b ! t) (mask0 ! b ! t) +
              maximum0 (reduce_max (sim_act ! b ! t)) * C_emb self = ?F b t"
        using loss_step_eq[OF k(1,3), of "mask0 ! b ! t"] loss_act_eq[OF k(2)]
        by (cases "use_max_sim_neg self") simp_all
    qed
    finally show ?thesis .
  qed
  have sm: "sum_list (mask0 ! b) = (\<Sum>t < ?T b. mask0 ! b ! t)" for b
    by (rule sum_list_nth_lessThan)
  have l2: "?loss2 = map (\<lambda>b. Some (?G b)) [0..<?B]"
  proof (intro nth_equalityI)
    show "length ?loss2 = length (map (\<lambda>b. Some (?G b)) [0..<?B])"
      using len by simp
  next
    fix b assume "b < length ?loss2"
    then have b: "b < ?B" using len by simp
    have "?loss2 ! b = (if sum_list (mask0 ! b) = 0 then None
                        else Some (sum_list (?loss1 ! b) / sum_list (mask0 ! b)))"
      using b len by simp
    also have "\<dots> = Some (?G b)"
      using V(2) b by (simp add: sm l1[OF b] sum_list_map_upt)
    finally have "?loss2 ! b = Some (?G b)" .
    then show "?loss2 ! b = map (\<lambda>b. Some (?G b)) [0..<?B] ! b"
      by (simp only: nth_map_upt0[OF b])
  qed
  have ne: "?loss2 \<noteq> []" "None \<notin> set ?loss2"
    using V(1) unfolding l2 by auto
  have "sum_list (map the ?loss2) = (\<Sum>b < ?B. ?G b)"
    unfolding l2 by (simp add: o_def sum_list_map_upt)
  moreover have "length ?loss2 = ?B" unfolding l2 by simp
  ultimately have main: "tf_loss self sim sim_act mask0 reg =
      Inr (Some ((\<Sum>b < ?B. ?G b) / real ?B + reg))"
    using S ne by (simp add: tf_loss_def Let_def)
  have masked: "?F b t = 0"
    if sim: "tf_sim self emb_dial emb_act mask0 = Inr (sim, sim_act)"
      and b: "b < ?B" and t: "t < ?T b" and z: "mask0 ! b ! t = 0"
    for emb_dial emb_act b t
  proof -
    from tf_sim_masked[OF sim, of b t] b t z len rows(2)[OF b]
    have "\<forall>s \<in> set (sim_act ! b ! t). s = 0" by simp
    moreover from K b t have "sim_act ! b ! t \<noteq> []" by simp
    ultimately have "set (sim_act ! b ! t) = {0}" by (cases "sim_act ! b ! t") auto
    then show ?thesis using z by (simp add: hinge_def)
  qed
  from main masked show ?thesis by blast
qed

lemma example_inner_params:
  "use_max_sim_neg example_inner" "mu_pos example_inner = 0.8"
  "mu_neg example_inner = - 0.2" "C_emb example_inner = 0.8"
  by (simp_all add: example_inner_def train_def load_params_inner load_params_nil
        np_mean_def example_data_def Let_def)

theorem tf_loss_formula_witness:
  "use_max_sim_neg example_inner \<and>
   loss_shapes example_inner [[[1 / 2, 0]]] [[[1 / 2]]] [[1]] \<and>
   tf_loss example_inner [[[1 / 2, 0]]] [[[1 / 2]]] [[1]] 0 = Inr (Some (7 / 10))"
proof -
  have S: "loss_shapes example_inner [[[1 / 2, 0]]] [[[1 / 2]]] [[1]]"
    by (simp add: loss_shapes_def example_inner_params)
  have K: "\<forall>b < length [[1 :: real]]. \<forall>t < length ([[1 :: real]] ! b).
              2 \<le> length ([[[1 / 2, 0 :: real]]] ! b ! t) \<and> [[[1 / 2 :: real]]] ! b ! t \<noteq> [] \<and>
              (\<not> use_max_sim_neg example_inner \<longrightarrow>
                 length ([[[1 / 2, 0 :: real]]] ! b ! t) = nat (num_neg example_inner) + 1)"
    by (simp add: example_inner_params)
  have V: "[[1 :: real]] \<noteq> []"
    "\<forall>b < length [[1 :: real]]. (\<Sum>t < length ([[1 :: real]] ! b). [[1 :: real]] ! b ! t) \<noteq> 0"
    by simp_all
  from tf_loss_formula[OF S K V, of 0]
  have "tf_loss example_inner [[[1 / 2, 0]]] [[[1 / 2]]] [[1]] 0 = Inr (Some (7 / 10))"
    by (simp add: example_inner_params hinge_def)
  with S example_inner_params(1) show ?thesis by simp
qed

text \<open>
  C3 as stated fails where the largest similarity between the correct action and a
  negative is below zero: for embeddings \<open>(1, 0)\<close> and \<open>(-1, 0)\<close> it is \<open>-1\<close>, the code's
  loss is 0, and the loss with the raw maximum would be \<open>-0.8\<close>.
\<close>

theorem tf_loss_raw_maximum_counterexample:
  "tf_sim example_inner [[[1, 0]]] [[[[1, 0], [- 1, 0]]]] [[1]] =
     Inr ([[[1, - 1]]], [[[- 1]]]) \<and>
   tf_loss example_inner [[[1, - 1]]] [[[- 1]]] [[1]] 0 = Inr (Some 0) \<and>
   specified_loss example_inner [[[1, - 1]]] [[[- 1]]] [[1]] 0 = - (4 / 5)"
proof -
  have a: "tf_sim example_inner [[[1, 0]]] [[[[1, 0], [- 1, 0]]]] [[1]] =
     Inr ([[[1, - 1]]], [[[- 1]]])"
    by (simp add: tf_sim_def example_inner_similarity times_mask_def dot_def)
  have b: "tf_loss example_inner [[[1, - 1]]] [[[- 1]]] [[1]] 0 = Inr (Some 0)"
    by (simp add: tf_loss_def loss_shapes_def example_inner_params loss_max_sim_neg_def
          reduce_max_def maximum0_def plus_scalar_def)
  have c: "specified_loss example_inner [[[1, - 1]]] [[[- 1]]] [[1]] 0 = - (4 / 5)"
    by (simp add: specified_loss_def example_inner_params hinge_def)
  from a b c show ?thesis by simp
qed

section \<open>Attention alignments\<close>

lemma softmax_pos: "p \<in> set (softmax xs) \<Longrightarrow> 0 < p"
proof -
  assume "p \<in> set (softmax xs)"
  then obtain x where x: "x \<in> set xs" "p = exp x / (\<Sum>y\<leftarrow>xs. exp y)"
    by (auto simp: softmax_def)
  then have "xs \<noteq> []" by auto
  from sum_list_exp_pos[OF this] x show ?thesis by simp
qed

lemma softmax_sum: "xs \<noteq> [] \<Longrightarrow> sum_list (softmax xs) = 1"
  using softmax_sums_to_one[of xs] by (simp add: softmax_def)

lemma length_softmax: "length (softmax xs) = length xs"
  by (simp add: softmax_def)

lemma length_conv_same: "length (conv_same xs w) = length xs"
  by (simp add: conv_same_def)

lemma length_sharpen: "length (sharpen g ps) = length ps"
  by (simp add: sharpen_def Let_def)

lemma sum_list_powr_nonneg: "0 \<le> (\<Sum>p\<leftarrow>ps. (p::real) powr g)"
  by (induction ps) auto

lemma sharpen_epsilon_pos: "0 < sharpen_epsilon"
  by (simp add: sharpen_epsilon_def)

lemma absorbing_from_pos: "0 < absorbing_from"
  by (simp add: absorbing_from_def)

lemma plus_epsilon_bounds:
  assumes "0 \<le> s"
  shows "0 < plus_epsilon s" "s \<le> plus_epsilon s" "plus_epsilon s \<le> s + sharpen_epsilon"
  using assms sharpen_epsilon_pos absorbing_from_pos
  by (auto simp: plus_epsilon_def)

lemma sum_list_sharpen:
  "sum_list (sharpen g ps) =
     (\<Sum>p\<leftarrow>ps. p powr g) / plus_epsilon (\<Sum>p\<leftarrow>ps. p powr g)"
proof -
  let ?S = "\<Sum>p\<leftarrow>ps. p powr g"
  have "sum_list (sharpen g ps) = (\<Sum>p\<leftarrow>ps. p powr g * inverse (plus_epsilon ?S))"
    by (simp add: sharpen_def Let_def o_def divide_inverse)
  also have "\<dots> = ?S * inverse (plus_epsilon ?S)"
    by (rule sum_list_mult_const)
  finally show ?thesis by (simp add: divide_inverse)
qed

lemma sharpened_total:
  assumes "0 \<le> s"
  shows "0 \<le> s / plus_epsilon s" "s / plus_epsilon s \<le> 1"
    "absorbing_from \<le> s \<Longrightarrow> s / plus_epsilon s = 1"
    "0 < tol \<Longrightarrow> sharpen_epsilon \<le> tol * s \<Longrightarrow> 1 - tol \<le> s / plus_epsilon s"
proof -
  note b = plus_epsilon_bounds[OF assms]
  show "0 \<le> s / plus_epsilon s" using assms b(1) by simp
  show "s / plus_epsilon s \<le> 1" using b(1,2) by simp
  show "s / plus_epsilon s = 1" if "absorbing_from \<le> s"
    using that absorbing_from_pos by (simp add: plus_epsilon_def)
  show "1 - tol \<le> s / plus_epsilon s" if t: "0 < tol" "sharpen_epsilon \<le> tol * s"
  proof (cases "1 \<le> tol")
    case True
    have "0 \<le> s / plus_epsilon s" using assms b(1) by simp
    with True show ?thesis by simp
  next
    case False
    then have "(1 - tol) * plus_epsilon s \<le> (1 - tol) * (s + sharpen_epsilon)"
      using b(3) by (simp add: mult_left_mono)
    also have "\<dots> = s + (sharpen_epsilon - tol * s) - tol * sharpen_epsilon"
      by (simp add: algebra_simps)
    also have "\<dots> \<le> s"
    proof -
      have "0 \<le> tol * sharpen_epsilon" using t(1) sharpen_epsilon_pos by simp
      with t(2) show ?thesis by simp
    qed
    finally show ?thesis using b(1) by (simp add: pos_le_divide_eq)
  qed
qed

lemma conv_same_pos:
  assumes x: "\<forall>p \<in> set xs. 0 < (p::real)" and w: "\<forall>p \<in> set w. 0 < p" "w \<noteq> []"
    and q: "q \<in> set (conv_same xs w)"
  shows "0 < q"
proof -
  let ?K = "length w"
  let ?c = "(?K - 1) div 2"
  from q obtain i where i: "i < length xs" and
    qi: "q = (\<Sum>k\<leftarrow>[0..<?K].
            (let j = int i + int k - int ?c
             in if 0 \<le> j \<and> j < int (length xs) then xs ! nat j else 0) * w ! k)"
    by (auto simp: conv_same_def)
  let ?f = "\<lambda>k. (let j = int i + int k - int ?c
             in if 0 \<le> j \<and> j < int (length xs) then xs ! nat j else 0) * w ! k"
  have c: "?c < ?K" using w(2) by (cases w) auto
  have nn: "0 \<le> ?f k" if "k < ?K" for k
  proof -
    have "0 < w ! k" using w(1) that by simp
    moreover have "0 \<le> (let j = int i + int k - int ?c
             in if 0 \<le> j \<and> j < int (length xs) then xs ! nat j else 0)"
      using x by (auto simp: Let_def intro!: less_imp_le)
    ultimately show ?thesis by simp
  qed
  have pos: "0 < ?f ?c"
  proof -
    have "0 < w ! ?c" using w(1) c by simp
    moreover have "0 < xs ! i" using x i by simp
    ultimately show ?thesis using i by (simp add: Let_def)
  qed
  have "q = (\<Sum>k < ?K. ?f k)"
    unfolding qi by (rule sum_list_map_upt)
  also have "0 < (\<Sum>k < ?K. ?f k)"
    by (rule sum_pos2[where i = ?c]) (use c nn pos in auto)
  finally show ?thesis .
qed

lemma TimedNTM_init_kernel:
  assumes "TimedNTM_init shift gate_unit s_w_units gamma_unit = Inr ntm"
    and "s_w ntm = Some layer"
  shows "layer x \<noteq> [] \<and> (\<forall>p \<in> set (layer x). 0 < p)"
proof -
  from assms have l: "layer = (\<lambda>x. softmax (dense_apply s_w_units x))" and "s_w_units \<noteq> []"
    by (auto simp: TimedNTM_init_def Let_def split: if_splits)
  then have "length (layer x) \<noteq> 0"
    by (simp add: length_softmax dense_apply_def)
  moreover have "\<forall>p \<in> set (layer x). 0 < p"
    unfolding l using softmax_pos by blast
  ultimately show ?thesis by simp
qed

lemma TimedNTM_init_no_shift:
  assumes "TimedNTM_init shift gate_unit s_w_units gamma_unit = Inr ntm"
    and "shift = None \<or> shift = Some 0"
  shows "s_w ntm = None"
  using assms by (auto simp: TimedNTM_init_def Let_def split: if_splits)

lemma TimedNTM_call_result:
  assumes I: "TimedNTM_init shift gate_unit s_w_units gamma_unit = Inr ntm"
    and L: "length probs_state + 1 = length probs0"
  shows "\<exists>ps next_probs_state.
           TimedNTM_call ntm cell_output probs0 probs_state =
             Inr (sharpen (gamma ntm cell_output) ps, next_probs_state) \<and>
           length ps = length probs0 \<and> length next_probs_state = length probs0 \<and>
           (\<forall>p \<in> set ps. 0 < p) \<and>
           (shift = None \<or> shift = Some 0 \<longrightarrow> sum_list ps = 1)"
proof -
  let ?g = "gate ntm cell_output"
  let ?p1 = "map2 (\<lambda>p s. ?g * p + (1 - ?g) * s) (butlast probs0) probs_state
               @ drop (length probs0 - 1) probs0"
  let ?p2 = "softmax ?p1"
  let ?p3 = "case s_w ntm of
               None \<Rightarrow> ?p2
             | Some layer \<Rightarrow> rev (conv_same (rev ?p2) (layer cell_output))"
  have l1: "length ?p1 = length probs0" using L by simp
  then have ne: "?p1 \<noteq> []" using L by (metis Suc_eq_plus1 length_0_conv nat.distinct(1))
  have p2: "\<forall>p \<in> set ?p2. 0 < p" using softmax_pos by blast
  have l3: "length ?p3 = length probs0"
    using l1 by (cases "s_w ntm") (simp_all add: length_softmax length_conv_same)
  have p3: "\<forall>p \<in> set ?p3. 0 < p"
  proof (cases "s_w ntm")
    case None
    then show ?thesis using p2 by simp
  next
    case (Some layer)
    from TimedNTM_init_kernel[OF I Some, of cell_output]
    have k: "layer cell_output \<noteq> []" "\<forall>p \<in> set (layer cell_output). 0 < p" by simp_all
    have "\<forall>p \<in> set (rev ?p2). 0 < p" using p2 by simp
    from conv_same_pos[OF this k(2) k(1)] show ?thesis using Some by simp
  qed
  have s3: "sum_list ?p3 = 1" if "shift = None \<or> shift = Some 0"
    using TimedNTM_init_no_shift[OF I that] softmax_sum[OF ne] by simp
  have lb: "length probs0 - Suc 0 = length probs_state" using L by simp
  have "TimedNTM_call ntm cell_output probs0 probs_state =
          Inr (sharpen (gamma ntm cell_output) ?p3, ?p1)"
    by (cases "s_w ntm") (simp_all add: TimedNTM_call_def Let_def lb)
  with l1 l3 p3 s3 show ?thesis by blast
qed

lemma sum_take_nth:
  assumes "n \<le> length xs"
  shows "sum_list (take n xs) = (\<Sum>j < n. xs ! j :: real)"
proof -
  have "sum_list (take n xs) = (\<Sum>j < length (take n xs). take n xs ! j)"
    by (rule sum_list_nth_lessThan)
  also have "\<dots> = (\<Sum>j < n. xs ! j)"
    using assms by (intro sum.cong) (simp_all add: min_absorb2)
  finally show ?thesis .
qed

lemma no_shift_ntm_eq:
  "TimedNTM_init (Some 0) ([], 0) [] ([], 0) = Inr no_shift_ntm"
  by (simp add: no_shift_ntm_def TimedNTM_init_def)

text \<open>
  C1, as amended. For a \<open>TimedNTM\<close> of any shift range, a step \<open>t\<close> below the memory
  length and an attention state of the memory's length, \<open>_compute_time_attention\<close>
  returns alignments of the memory's length that are zero at every position after
  \<open>t\<close>. The positions up to \<open>t\<close> hold the sharpening of weights \<open>ps\<close> that are not
  negative (and sum to 1 when there is no shift). With \<open>S\<close> the sum of their powers,
  the entries sum to \<open>S\<close> divided by the single-precision sum of \<open>S\<close> and \<open>1e-32\<close>. That
  is a number from 0 to 1; it is 1 whenever \<open>S\<close> is at least \<open>2^-82\<close>, where the
  constant is absorbed, and it is within \<open>tol\<close> of 1 whenever \<open>1e-32\<close> is at most
  \<open>tol * S\<close>. Nothing keeps it near 1 for a smaller \<open>S\<close>.
\<close>

theorem time_attention_alignments:
  assumes I: "TimedNTM_init shift gate_unit s_w_units gamma_unit = Inr ntm"
    and M: "length (attention_mechanism cell_output attention_state) = length memory"
    and A: "length attention_state = length memory"
    and T: "t < length memory"
  shows "\<exists>attention alignments next_attention_state ps.
           compute_time_attention attention_mechanism memory cell_output attention_state
             t ntm attention_layer = Inr (attention, alignments, next_attention_state) \<and>
           length alignments = length memory \<and>
           length next_attention_state = length memory \<and>
           (\<forall>j. t < j \<and> j < length memory \<longrightarrow> alignments ! j = 0) \<and>
           length ps = t + 1 \<and> (\<forall>p \<in> set ps. 0 \<le> p) \<and>
           (shift = None \<or> shift = Some 0 \<longrightarrow> sum_list ps = 1) \<and>
           take (t + 1) alignments = sharpen (gamma ntm cell_output) ps \<and>
           (let S = (\<Sum>p\<leftarrow>ps. p powr gamma ntm cell_output);
                total = (\<Sum>j \<le> t. alignments ! j)
            in total = S / plus_epsilon S \<and> 0 \<le> total \<and> total \<le> 1 \<and>
               (absorbing_from \<le> S \<longrightarrow> total = 1) \<and>
               (\<forall>tol. 0 < tol \<and> sharpen_epsilon \<le> tol * S \<longrightarrow> 1 - tol \<le> total))"
proof -
  let ?al0 = "attention_mechanism cell_output attention_state"
  let ?n = "length memory"
  let ?probs = "take (t + 1) ?al0"
  let ?state = "take t attention_state"
  let ?zeros = "replicate ?n (0::real)"
  let ?gm = "gamma ntm cell_output"
  have L: "length ?state + 1 = length ?probs" using M A T by simp
  from TimedNTM_call_result[OF I L, of cell_output] obtain ps nps where
    r: "TimedNTM_call ntm cell_output ?probs ?state = Inr (sharpen ?gm ps, nps)"
       "length ps = length ?probs" "length nps = length ?probs"
       "\<forall>p \<in> set ps. 0 < p" "shift = None \<or> shift = Some 0 \<longrightarrow> sum_list ps = 1"
    by blast
  have lp: "length ps = t + 1" using r(2) M T by simp
  have nn: "\<forall>p \<in> set ps. 0 \<le> p" using r(4) by (auto intro: less_imp_le)
  let ?al = "sharpen ?gm ps @ drop (t + 1) ?zeros"
  let ?ns = "nps @ drop (t + 1) ?zeros"
  have la: "length ?al = ?n" using lp T by (simp add: length_sharpen)
  have ln: "length ?ns = ?n" using r(3) M T by simp
  obtain attention where
    run: "compute_time_attention attention_mechanism memory cell_output attention_state
             t ntm attention_layer = Inr (attention, ?al, ?ns)"
    using r(1) la by (simp add: compute_time_attention_def Let_def M)
  have z: "?al ! j = 0" if "t < j \<and> j < ?n" for j
  proof -
    from that have "j - Suc t < ?n - Suc t" by arith
    then show ?thesis using that lp by (simp add: nth_append length_sharpen)
  qed
  have tk: "take (t + 1) ?al = sharpen ?gm ps"
    using lp by (simp add: length_sharpen)
  let ?S = "\<Sum>p\<leftarrow>ps. p powr ?gm"
  have S: "0 \<le> ?S" by (rule sum_list_powr_nonneg)
  have "(\<Sum>j \<le> t. ?al ! j) = (\<Sum>j < t + 1. ?al ! j)"
    by (simp add: lessThan_Suc_atMost)
  also have "\<dots> = sum_list (take (t + 1) ?al)"
    using la T by (intro sum_take_nth[symmetric]) simp
  also have "\<dots> = ?S / plus_epsilon ?S"
    unfolding tk by (rule sum_list_sharpen)
  finally have sum: "(\<Sum>j \<le> t. ?al ! j) = ?S / plus_epsilon ?S" .
  note b = sharpened_total[OF S]
  have tot: "let S = ?S; total = (\<Sum>j \<le> t. ?al ! j)
             in total = S / plus_epsilon S \<and> 0 \<le> total \<and> total \<le> 1 \<and>
                (absorbing_from \<le> S \<longrightarrow> total = 1) \<and>
                (\<forall>tol. 0 < tol \<and> sharpen_epsilon \<le> tol * S \<longrightarrow> 1 - tol \<le> total)"
    unfolding Let_def sum using b by blast
  from run la ln z lp nn r(5) tk tot show ?thesis
    by (intro exI[of _ attention] exI[of _ ?al] exI[of _ ?ns] exI[of _ ps]) simp
qed

theorem time_attention_alignments_witness:
  "TimedNTM_init (Some 0) ([], 0) [] ([], 0) = Inr no_shift_ntm \<and>
   length (zero_scores [] [0, 0]) = length [[1], [1 :: real]] \<and>
   (\<exists>attention alignments next_attention_state.
      compute_time_attention zero_scores [[1], [1]] [] [0, 0] 0 no_shift_ntm None =
        Inr (attention, alignments, next_attention_state) \<and>
      length alignments = 2 \<and> alignments ! 1 = 0 \<and> alignments ! 0 = 1)"
proof -
  have M: "length (zero_scores [] [0, 0]) = length [[1], [1 :: real]]"
    by (simp add: zero_scores_def)
  have A: "length [0, 0 :: real] = length [[1], [1 :: real]]" by simp
  have T: "0 < length [[1], [1 :: real]]" by simp
  from time_attention_alignments[where attention_mechanism = zero_scores
         and cell_output = "[]" and attention_state = "[0, 0]" and memory = "[[1], [1]]"
         and t = 0 and attention_layer = None, OF no_shift_ntm_eq M A T]
  obtain attention alignments next_attention_state ps where
    r: "compute_time_attention zero_scores [[1], [1]] [] [0, 0] 0 no_shift_ntm None =
          Inr (attention, alignments, next_attention_state)"
       "length alignments = length [[1], [1 :: real]]"
       "\<forall>j. 0 < j \<and> j < length [[1], [1 :: real]] \<longrightarrow> alignments ! j = 0"
       "length ps = 0 + 1" "sum_list ps = 1"
       "absorbing_from \<le> (\<Sum>p\<leftarrow>ps. p powr gamma no_shift_ntm []) \<longrightarrow>
          (\<Sum>j \<le> 0. alignments ! j) = 1"
    unfolding Let_def by blast
  from r(4,5) have "ps = [1]" by (cases ps) auto
  then have "(\<Sum>p\<leftarrow>ps. p powr gamma no_shift_ntm []) = 1" by simp
  moreover have "absorbing_from \<le> 1" by (simp add: absorbing_from_def)
  ultimately have "alignments ! 0 = 1" using r(6) by simp
  moreover from r(3) have "alignments ! 1 = 0" by simp
  ultimately show ?thesis using r(1,2) no_shift_ntm_eq M by auto
qed

lemma far_shift_ntm_eq:
  "TimedNTM_init (Some 3) ([], 0) far_shift_units ([], ln (exp 1 - 1)) = Inr far_shift_ntm"
  by (simp add: far_shift_ntm_def TimedNTM_init_def far_shift_units_def)

lemma far_shift_ntm_fields:
  "s_w far_shift_ntm = Some (\<lambda>x. softmax (dense_apply far_shift_units x))"
  "gamma far_shift_ntm = (\<lambda>x. softplus (dot x [] + ln (exp 1 - 1)) + 1)"
  by (simp_all add: far_shift_ntm_def TimedNTM_init_def far_shift_units_def)

lemma far_shift_gamma: "gamma far_shift_ntm [] = 2"
proof -
  have "(1::real) < exp 1" by (rule exp_gt_one) simp
  then have "exp (ln (exp 1 - 1)) = exp 1 - (1::real)" by simp
  then have "softplus (ln (exp 1 - 1)) = 1" by (simp add: softplus_def)
  then show ?thesis by (simp add: far_shift_ntm_fields dot_def)
qed

lemma far_shift_kernel:
  "softmax (dense_apply far_shift_units []) =
     [(10 ^ 16 - 6) / 10 ^ 16, 1 / 10 ^ 16, 1 / 10 ^ 16, 1 / 10 ^ 16,
      1 / 10 ^ 16, 1 / 10 ^ 16, 1 / 10 ^ 16]"
  by (simp add: softmax_def dense_apply_def far_shift_units_def dot_def)

lemma far_shift_conv:
  "conv_same [1] [a0, a1, a2, a3, a4, a5, a6] = [a3]"
  by (simp add: conv_same_def upt_rec Let_def)

lemma far_shift_sharpen: "sharpen 2 [1 / 10 ^ 16] = [1 / 2]"
proof -
  have "(1 / 10 ^ 16 :: real) powr 2 = 1 / 10 ^ 32"
    by (simp add: power_divide)
  then show ?thesis
    by (simp add: sharpen_def plus_epsilon_def absorbing_from_def sharpen_epsilon_def Let_def)
qed

lemma far_shift_call:
  "TimedNTM_call far_shift_ntm [] [0] [] = Inr ([1 / 2], [0])"
proof -
  have sm: "softmax [0] = [1]" by (simp add: softmax_def)
  have sh: "sharpen 2 [1 / 10000000000000000] = [1 / 2]"
    using far_shift_sharpen by simp
  show ?thesis
    by (simp add: TimedNTM_call_def far_shift_ntm_fields(1) far_shift_gamma
          far_shift_kernel far_shift_conv sm sh Let_def)
qed

text \<open>
  C1 as stated fails for the sum: at step 0 with shift range 3, a shift weighting
  whose centre weight is \<open>1e-16\<close> and the sharpening exponent 2, the sum of the powers
  is \<open>1e-32\<close>, too small to absorb the constant, and the only position allowed holds
  \<open>1e-32 / (1e-32 + 1e-32) = 1/2\<close>.
\<close>

theorem time_attention_sum_counterexample:
  "TimedNTM_init (Some 3) ([], 0) far_shift_units ([], ln (exp 1 - 1)) = Inr far_shift_ntm \<and>
   compute_time_attention zero_scores [[1], [1]] [] [0, 0] 0 far_shift_ntm None =
     Inr ([1 / 2], [1 / 2, 0], [0, 0]) \<and>
   (\<Sum>j \<le> 0. [1 / 2, 0 :: real] ! j) = 1 / 2"
  by (simp add: far_shift_ntm_eq compute_time_attention_def zero_scores_def far_shift_call
        shape1_def Let_def)

end
